theory Spec2Isabelle
  imports Complex_Main "HOL-Library.Sublist" "HOL-Library.Multiset"
begin

section \<open>Python strings\<close>

text \<open>
  The analyzer of \<^verbatim>\<open>src/data_collection/aspect_analyzer.py\<close> works on Python \<^verbatim>\<open>str\<close>
  values. They are modelled as \<^typ>\<open>string\<close>; the case mappings and the character
  classes below are Python's on ASCII text, and a character above 127 is left alone by
  the case mappings and belongs to no class. The one non-ASCII literal of the source,
  the bullet of the summary lines, is written as its three UTF-8 bytes.
\<close>

definition ord :: "char \<Rightarrow> nat" where
  "ord c = of_char c"

definition chr :: "nat \<Rightarrow> char" where
  "chr n = char_of n"

definition is_upper :: "char \<Rightarrow> bool" where
  "is_upper c = (65 \<le> ord c \<and> ord c \<le> 90)"

definition is_lower :: "char \<Rightarrow> bool" where
  "is_lower c = (97 \<le> ord c \<and> ord c \<le> 122)"

definition is_digit :: "char \<Rightarrow> bool" where
  "is_digit c = (48 \<le> ord c \<and> ord c \<le> 57)"

definition is_alpha :: "char \<Rightarrow> bool" where
  "is_alpha c = (is_upper c \<or> is_lower c)"

text \<open>\<^verbatim>\<open>str.isspace\<close> on one ASCII character: tab to carriage return, the four
  separators 28 to 31, and the space. Python counts further Unicode characters, such as
  U+00A0, as white space; the model does not, so \<open>strip\<close> below is Python's on ASCII
  text only.\<close>

definition is_space :: "char \<Rightarrow> bool" where
  "is_space c = ((9 \<le> ord c \<and> ord c \<le> 13) \<or> (28 \<le> ord c \<and> ord c \<le> 32))"

text \<open>The class \<^verbatim>\<open>\w\<close> of the \<^verbatim>\<open>re\<close> module on ASCII characters. Python's class also
  has the letters and digits beyond ASCII; the model does not, so \<open>findall_words\<close> below
  is Python's on ASCII text only.\<close>

definition is_word_char :: "char \<Rightarrow> bool" where
  "is_word_char c = (is_alpha c \<or> is_digit c \<or> c = CHR ''_'')"

definition lower_char :: "char \<Rightarrow> char" where
  "lower_char c = (if is_upper c then chr (ord c + 32) else c)"

definition upper_char :: "char \<Rightarrow> char" where
  "upper_char c = (if is_lower c then chr (ord c - 32) else c)"

definition lower :: "string \<Rightarrow> string" where
  "lower s = map lower_char s"

text \<open>\<^verbatim>\<open>str.capitalize\<close>: the first character upper-cased, the rest lower-cased.\<close>

fun capitalize :: "string \<Rightarrow> string" where
  "capitalize [] = []"
| "capitalize (c # cs) = upper_char c # lower cs"

text \<open>\<^verbatim>\<open>str.title\<close>: a letter that follows a letter is lower-cased, any other letter is
  upper-cased. The flag says whether the previous character was a letter.\<close>

fun title_from :: "bool \<Rightarrow> string \<Rightarrow> string" where
  "title_from prev [] = []"
| "title_from prev (c # cs) =
     (if is_alpha c then (if prev then lower_char c else upper_char c) # title_from True cs
      else c # title_from False cs)"

definition title :: "string \<Rightarrow> string" where
  "title s = title_from False s"

text \<open>\<^verbatim>\<open>s.replace(a, b)\<close> for one-character \<^verbatim>\<open>a\<close> and \<^verbatim>\<open>b\<close>.\<close>

definition replace_char :: "char \<Rightarrow> char \<Rightarrow> string \<Rightarrow> string" where
  "replace_char a b s = map (\<lambda>c. if c = a then b else c) s"

text \<open>\<^verbatim>\<open>str.strip()\<close> with no argument.\<close>

definition strip :: "string \<Rightarrow> string" where
  "strip s = rev (dropWhile is_space (rev (dropWhile is_space s)))"

text \<open>\<^verbatim>\<open>sep.join(xs)\<close>.\<close>

fun join :: "string \<Rightarrow> string list \<Rightarrow> string" where
  "join sep [] = []"
| "join sep [x] = x"
| "join sep (x # y # ys) = x @ sep @ join sep (y # ys)"

text \<open>\<^verbatim>\<open>k in s\<close> on strings: \<^verbatim>\<open>k\<close> occurs in \<^verbatim>\<open>s\<close> as a contiguous run.\<close>

fun contains :: "string \<Rightarrow> string \<Rightarrow> bool" where
  "contains k [] = (k = [])"
| "contains k (c # cs) = (prefix k (c # cs) \<or> contains k cs)"

text \<open>\<^verbatim>\<open>str(n)\<close> for a natural number and for an integer.\<close>

fun str_nat :: "nat \<Rightarrow> string" where
  "str_nat n = (if n < 10 then [chr (48 + n)] else str_nat (n div 10) @ [chr (48 + n mod 10)])"

declare str_nat.simps [simp del]

definition str_int :: "int \<Rightarrow> string" where
  "str_int i = (if i < 0 then CHR ''-'' # str_nat (nat (- i)) else str_nat (nat i))"

text \<open>\<^verbatim>\<open>re.findall(r'\b\w+\b', s)\<close>: the maximal runs of word characters, left to
  right. The first argument is the run read so far.\<close>

fun findall_words :: "string \<Rightarrow> string \<Rightarrow> string list" where
  "findall_words cur [] = (if cur = [] then [] else [cur])"
| "findall_words cur (c # cs) =
     (if is_word_char c then findall_words (cur @ [c]) cs
      else (if cur = [] then [] else [cur]) @ findall_words [] cs)"


section \<open>Category and competitor tables\<close>

text \<open>Python dictionaries keep insertion order, and the source iterates over them, so
  the tables are association lists in the order of the source.\<close>

definition BRAND_TO_CATEGORY :: "(string \<times> string) list" where
  "BRAND_TO_CATEGORY =
    [(''Samsung'', ''mobile''), (''Realme'', ''mobile''), (''Vivo'', ''mobile''),
     (''Oppo'', ''mobile''), (''OnePlus'', ''mobile''), (''Apple'', ''mobile''),
     (''Motorola'', ''mobile''), (''Xiaomi'', ''mobile''),
     (''HP'', ''laptop''), (''Dell'', ''laptop''), (''Lenovo'', ''laptop''),
     (''Asus'', ''laptop''), (''Acer'', ''laptop''),
     (''Sony'', ''television''), (''LG'', ''television''), (''TCL'', ''television''),
     (''Boat'', ''audio''), (''Noise'', ''audio''), (''JBL'', ''audio''),
     (''Bata'', ''footwear''), (''Sparx'', ''footwear''), (''Puma'', ''footwear''),
     (''Nike'', ''footwear''),
     (''Whirlpool'', ''home_appliance''), (''Godrej'', ''home_appliance''),
     (''Haier'', ''home_appliance'')]"

definition COMPETITOR_MAP :: "(string \<times> string list) list" where
  "COMPETITOR_MAP =
    [(''mobile'', [''Samsung'', ''Realme'', ''Vivo'', ''Oppo'', ''OnePlus'', ''Apple'',
                   ''Motorola'', ''Xiaomi'']),
     (''laptop'', [''HP'', ''Dell'', ''Lenovo'', ''Asus'', ''Acer'', ''Apple'']),
     (''television'', [''Sony'', ''LG'', ''TCL'', ''Samsung'', ''Mi'']),
     (''audio'', [''Boat'', ''Noise'', ''JBL'', ''Sony'', ''Realme'']),
     (''footwear'', [''Bata'', ''Sparx'', ''Puma'', ''Nike'', ''Adidas'', ''Campus'']),
     (''fashion'', [''Zara'', ''H&M'', ''Max'', ''Allen Solly'', ''Peter England'']),
     (''home_appliance'', [''Whirlpool'', ''Godrej'', ''Haier'', ''LG'', ''Samsung''])]"


section \<open>Category detection\<close>

text \<open>The loop \<^verbatim>\<open>for brand, category in BRAND_TO_CATEGORY.items()\<close> of
  \<^verbatim>\<open>detect_product_category\<close>; \<^verbatim>\<open>name\<close> is the lower-cased product name. The result
  is the category at the first \<^verbatim>\<open>return\<close>, if the loop reaches one.\<close>

fun brand_loop :: "(string \<times> string) list \<Rightarrow> string \<Rightarrow> string option" where
  "brand_loop [] name = None"
| "brand_loop ((brand, category) # rest) name =
     (if contains (lower brand) name then Some category else brand_loop rest name)"

text \<open>\<^verbatim>\<open>any(k in name for k in ks)\<close>.\<close>

definition any_in :: "string list \<Rightarrow> string \<Rightarrow> bool" where
  "any_in ks name = list_ex (\<lambda>k. contains k name) ks"

definition detect_product_category :: "string \<Rightarrow> string" where
  "detect_product_category product_name =
     (let name = lower product_name in
      case brand_loop BRAND_TO_CATEGORY name of
        Some category \<Rightarrow> category
      | None \<Rightarrow>
          if any_in [''phone'', ''mobile'', ''smartphone'', ''5g''] name then ''mobile''
          else if any_in [''laptop'', ''notebook'', ''macbook'', ''chromebook''] name
            then ''laptop''
          else if any_in [''tv'', ''television'', ''smart tv'', ''qled''] name
            then ''television''
          else if any_in [''earphone'', ''headphone'', ''earbud'', ''speaker'', ''soundbar'']
                    name
            then ''audio''
          else if any_in [''shoe'', ''slipper'', ''sandal'', ''boot'', ''sneaker''] name
            then ''footwear''
          else if any_in [''shirt'', ''pant'', ''jean'', ''dress'', ''tshirt'', ''kurti''] name
            then ''fashion''
          else if any_in [''refrigerator'', ''washing'', ''microwave'', ''ac'', ''cooler''] name
            then ''home_appliance''
          else ''general'')"


section \<open>Floating point\<close>

text \<open>
  Python's \<^verbatim>\<open>float\<close> is the IEEE double. The analyzer divides two counts, multiplies a
  quotient by 100, compares with constants and prints with \<^verbatim>\<open>:.0f\<close>. All values
  involved lie between 0 and 100, far from overflow and underflow, so a double is
  modelled as the rational it denotes and each operation as the exact operation followed
  by rounding to 53 significant bits, ties to even.
\<close>

definition round_half_even :: "rat \<Rightarrow> int" where
  "round_half_even x =
     (let f = \<lfloor>x\<rfloor>; d = x - of_int f in
      if d < 1 / 2 then f else if 1 / 2 < d then f + 1 else if even f then f else f + 1)"

fun log2floor :: "nat \<Rightarrow> nat" where
  "log2floor n = (if n < 2 then 0 else Suc (log2floor (n div 2)))"

declare log2floor.simps [simp del]

text \<open>The exponent \<open>e\<close> of a positive rational: \<open>2 powi e \<le> x < 2 powi (e + 1)\<close>.\<close>

definition binade :: "rat \<Rightarrow> int" where
  "binade x =
     (let (a, b) = quotient_of x;
          k = int (log2floor (nat a)) - int (log2floor (nat b))
      in if 2 powi k \<le> x then k else k - 1)"

text \<open>The double nearest to a rational.\<close>

definition dbl :: "rat \<Rightarrow> rat" where
  "dbl x =
     (if x = 0 then 0
      else let u = 2 powi (binade \<bar>x\<bar> - 52)
           in sgn x * of_int (round_half_even (\<bar>x\<bar> / u)) * u)"

text \<open>\<^verbatim>\<open>a / b\<close> on two integers (correctly rounded in CPython) and \<^verbatim>\<open>x * y\<close> on
  two doubles.\<close>

definition py_truediv :: "nat \<Rightarrow> nat \<Rightarrow> rat" where
  "py_truediv a b = dbl (of_nat a / of_nat b)"

definition py_fmul :: "rat \<Rightarrow> rat \<Rightarrow> rat" where
  "py_fmul x y = dbl (x * y)"

text \<open>\<^verbatim>\<open>f"{x:.0f}"\<close> for a double that is not negative: the nearest integer to the
  exact value, ties to even.\<close>

definition fmt_0f :: "rat \<Rightarrow> string" where
  "fmt_0f x = str_nat (nat (round_half_even x))"

text \<open>The double written \<^verbatim>\<open>0.2\<close>.\<close>

definition float_0_2 :: rat where
  "float_0_2 = 3602879701896397 / 18014398509481984"


section \<open>Data model\<close>

datatype sentiment = Positive | Negative | Neutral

text \<open>The dictionary keys and output strings of the three sentiments.\<close>

fun sentiment_str :: "sentiment \<Rightarrow> string" where
  "sentiment_str Positive = ''positive''"
| "sentiment_str Negative = ''negative''"
| "sentiment_str Neutral = ''neutral''"

text \<open>One entry of \<^verbatim>\<open>aspect_data\<close>.\<close>

record tally =
  positive :: nat
  negative :: nat
  neutral :: nat
  mentions :: "string list"

record distribution =
  d_positive :: nat
  d_negative :: nat
  d_neutral :: nat

text \<open>One value of the \<^verbatim>\<open>aspects\<close> dictionary of the result. The keys \<^verbatim>\<open>count\<close> and
  \<^verbatim>\<open>distribution\<close> are not in every such dictionary the source builds, so they are
  optional here.\<close>

record verdict =
  v_sentiment :: sentiment
  v_reason :: string
  v_count :: "nat option"
  v_distribution :: "distribution option"

record theme =
  t_theme :: string
  t_sentiment :: sentiment
  t_reason :: string
  t_mention_count :: nat

record theme_sentiment =
  ts_sentiment :: sentiment
  ts_reason :: string

record recommendation =
  r_name :: string
  r_reason :: string
  r_category :: string

record competitors_info =
  ci_category :: string
  ci_detected_brand :: "string option"
  ci_competitors :: "string list"

text \<open>The dictionary that \<^verbatim>\<open>analyze_reviews\<close> returns; field \<open>res_k\<close> is its key \<open>k\<close>.\<close>

record analysis =
  res_product_name :: string
  res_category :: string
  res_overall_feedback :: string
  res_aspects :: "(string \<times> verdict) list"
  res_summary :: string
  res_key_themes :: "theme list"
  res_recommended_products :: "recommendation list"
  res_review_count :: nat
  res_analysis_confidence :: string

text \<open>
  The entries of the \<^verbatim>\<open>reviews\<close> argument. The source accepts any Python object; the
  model has the dictionaries (\<^verbatim>\<open>isinstance(r, dict)\<close>) with values that are \<^verbatim>\<open>None\<close>,
  booleans, integers or strings, and the same four kinds of value as entries that are
  not dictionaries.
\<close>

datatype pyval = PyNone | PyBool bool | PyInt int | PyStr string

datatype review = Dict "string \<rightharpoonup> pyval" | Plain pyval

fun truthy :: "pyval \<Rightarrow> bool" where
  "truthy PyNone = False"
| "truthy (PyBool b) = b"
| "truthy (PyInt i) = (i \<noteq> 0)"
| "truthy (PyStr s) = (s \<noteq> [])"

fun py_str :: "pyval \<Rightarrow> string" where
  "py_str PyNone = ''None''"
| "py_str (PyBool b) = (if b then ''True'' else ''False'')"
| "py_str (PyInt i) = str_int i"
| "py_str (PyStr s) = s"

text \<open>\<^verbatim>\<open>d.get(k)\<close> and \<^verbatim>\<open>a or b\<close>.\<close>

definition dict_get :: "(string \<rightharpoonup> pyval) \<Rightarrow> string \<Rightarrow> pyval" where
  "dict_get d k = (case d k of None \<Rightarrow> PyNone | Some v \<Rightarrow> v)"

definition py_or :: "pyval \<Rightarrow> pyval \<Rightarrow> pyval" where
  "py_or a b = (if truthy a then a else b)"

text \<open>An insertion-ordered dictionary as an association list: \<^verbatim>\<open>d[k] = v\<close> replaces
  the value of a key that is there and appends a new key at the end.\<close>

fun dict_set :: "('k \<times> 'v) list \<Rightarrow> 'k \<Rightarrow> 'v \<Rightarrow> ('k \<times> 'v) list" where
  "dict_set [] k v = [(k, v)]"
| "dict_set ((k', v') # kvs) k v =
     (if k' = k then (k, v) # kvs else (k', v') # dict_set kvs k v)"


section \<open>The external libraries\<close>

text \<open>
  TextBlob and NLTK are not part of the repository; the model takes what the source
  uses of them as parameters. \<open>polarity\<close> is \<^verbatim>\<open>TextBlob(text).sentiment.polarity\<close>.
  \<open>nltk\<close> is \<open>None\<close> when \<^verbatim>\<open>NLTK_AVAILABLE\<close> is false; otherwise it holds
  \<^verbatim>\<open>nltk.word_tokenize\<close>, \<^verbatim>\<open>lemmatizer.lemmatize\<close> and \<^verbatim>\<open>nltk.pos_tag\<close>, each returning
  \<open>None\<close> where the call raises.
\<close>

record nltk_lib =
  word_tokenize :: "string \<Rightarrow> string list option"
  lemmatize :: "string \<Rightarrow> string option"
  pos_tag :: "string list \<Rightarrow> (string \<times> string) list option"

record libs =
  polarity :: "string \<Rightarrow> rat"
  nltk :: "nltk_lib option"


section \<open>The analyzer object\<close>

text \<open>The four tables that \<^verbatim>\<open>FlipkartReviewAnalyzer.__init__\<close> stores in the object.
  The two word tables are Python sets; the source only tests membership in them.\<close>

record analyzer =
  aspect_keywords :: "(string \<times> string list) list"
  category_aspects :: "(string \<times> string list) list"
  positive_words :: "string set"
  negative_words :: "string set"

definition base_aspect_keywords :: "(string \<times> string list) list" where
  "base_aspect_keywords =
    [(''battery'', [''battery'', ''batteries'', ''charge'', ''charges'', ''charging'',
        ''charged'', ''backup'', ''power'', ''mah'', ''juice'', ''drain'', ''draining'',
        ''life'']),
     (''display'', [''display'', ''displays'', ''screen'', ''screens'', ''brightness'',
        ''bright'', ''touch'', ''resolution'', ''amoled'', ''lcd'', ''oled'', ''refresh'',
        ''panel'']),
     (''performance'', [''performance'', ''perform'', ''performs'', ''speed'', ''fast'',
        ''faster'', ''slow'', ''slower'', ''lag'', ''lags'', ''lagging'', ''laggy'',
        ''processor'', ''ram'', ''smooth'', ''smoothly'', ''multitask'', ''multitasking'',
        ''hang'', ''hangs'']),
     (''design'', [''design'', ''designed'', ''look'', ''looks'', ''looking'', ''build'',
        ''built'', ''quality'', ''premium'', ''body'', ''finish'', ''finishing'',
        ''aesthetic'', ''aesthetics'', ''appearance'', ''sleek'']),
     (''camera'', [''camera'', ''cameras'', ''photo'', ''photos'', ''picture'', ''pictures'',
        ''pic'', ''video'', ''videos'', ''selfie'', ''selfies'', ''lens'', ''megapixel'',
        ''mp'', ''clarity'', ''zoom'', ''zooming'', ''shot'', ''shots'']),
     (''sound'', [''sound'', ''sounds'', ''audio'', ''speaker'', ''speakers'', ''music'',
        ''volume'', ''loud'', ''loudness'', ''headphone'', ''headphones'', ''bass'',
        ''treble'', ''clarity'']),
     (''price'', [''price'', ''prices'', ''priced'', ''value'', ''worth'', ''money'',
        ''expensive'', ''cheap'', ''cheaper'', ''affordable'', ''cost'', ''costs'',
        ''costly'', ''vfm'', ''overpriced'', ''budget'']),
     (''software'', [''software'', ''ui'', ''update'', ''updates'', ''updated'', ''android'',
        ''ios'', ''interface'', ''app'', ''apps'', ''system'', ''bloatware'', ''os'']),
     (''heating'', [''heat'', ''heats'', ''heated'', ''heating'', ''warm'', ''warmer'',
        ''hot'', ''hotter'', ''temperature'', ''thermal'', ''overheat'', ''overheating'']),
     (''durability'', [''durable'', ''durability'', ''lasting'', ''last'', ''lasts'',
        ''sturdy'', ''fragile'', ''break'', ''breaks'', ''broken'', ''scratch'',
        ''scratches'', ''scratched'']),
     (''delivery'', [''delivery'', ''delivered'', ''shipping'', ''shipped'', ''packaging'',
        ''package'', ''packed'', ''box'', ''boxed'', ''received'', ''receive'']),
     (''service'', [''service'', ''services'', ''support'', ''warranty'', ''replacement'',
        ''replace'', ''customer'', ''care'', ''helpline''])]"

definition appliance_aspect_keywords :: "(string \<times> string list) list" where
  "appliance_aspect_keywords =
    [(''cooling'', [''cool'', ''cooling'', ''chill'', ''chilling'', ''cold'', ''temperature'',
        ''hot room'', ''heat wave'']),
     (''power_consumption'', [''power'', ''electricity'', ''units'', ''consumption'',
        ''energy'', ''efficient'', ''inverter'', ''star rating'']),
     (''noise'', [''noise'', ''noisy'', ''silent'', ''quiet'', ''sound'', ''humming'',
        ''vibration'']),
     (''installation'', [''install'', ''installation'', ''installed'', ''technician'',
        ''fitting'', ''mounting'', ''pipes'', ''drain'', ''outdoor unit'']),
     (''remote'', [''remote'', ''remote control'', ''buttons'', ''display panel'',
        ''led panel'']),
     (''airflow'', [''airflow'', ''swing'', ''throw'', ''vent'', ''air throw'',
        ''fan speed'']),
     (''compressor'', [''compressor'', ''coolant'', ''gas'', ''refrigerant'', ''condenser'',
        ''evaporator''])]"

definition init_category_aspects :: "(string \<times> string list) list" where
  "init_category_aspects =
    [(''mobile'', [''battery'', ''display'', ''performance'', ''design'', ''camera'',
        ''sound'', ''price'', ''software'', ''heating'', ''durability'', ''delivery'',
        ''service'']),
     (''laptop'', [''battery'', ''display'', ''performance'', ''design'', ''sound'',
        ''price'', ''software'', ''heating'', ''durability'', ''delivery'', ''service'']),
     (''television'', [''display'', ''sound'', ''price'', ''design'', ''durability'',
        ''delivery'', ''service'']),
     (''audio'', [''sound'', ''price'', ''design'', ''durability'', ''delivery'',
        ''service'']),
     (''footwear'', [''price'', ''design'', ''durability'', ''delivery'', ''service'']),
     (''fashion'', [''price'', ''design'', ''durability'', ''delivery'', ''service'']),
     (''home_appliance'', [''cooling'', ''power_consumption'', ''noise'', ''installation'',
        ''service'', ''durability'', ''price'', ''design'', ''delivery'']),
     (''general'', [''price'', ''design'', ''durability'', ''delivery'', ''service''])]"

definition init_positive_words :: "string list" where
  "init_positive_words =
    [''good'', ''great'', ''excellent'', ''amazing'', ''fantastic'', ''love'', ''loved'',
     ''best'', ''awesome'', ''perfect'', ''superb'', ''outstanding'', ''brilliant'', ''nice'',
     ''satisfied'', ''happy'', ''impressed'', ''impressive'', ''recommend'', ''recommended'',
     ''solid'', ''worth'', ''pleased'', ''delighted'', ''wonderful'', ''fabulous'',
     ''incredible'', ''superior'', ''top'']"

definition init_negative_words :: "string list" where
  "init_negative_words =
    [''bad'', ''poor'', ''terrible'', ''worst'', ''awful'', ''disappointing'',
     ''disappointed'', ''useless'', ''waste'', ''pathetic'', ''horrible'', ''issue'',
     ''issues'', ''problem'', ''problems'', ''defect'', ''defective'', ''broken'', ''regret'',
     ''avoid'', ''faulty'', ''damaged'', ''fail'', ''fails'', ''failed'', ''cheap'', ''hate'',
     ''hated'', ''never'', ''not'']"

text \<open>\<^verbatim>\<open>__init__\<close>: the appliance keywords are added with \<^verbatim>\<open>dict.update\<close>.\<close>

definition new_analyzer :: analyzer where
  "new_analyzer =
     \<lparr>aspect_keywords =
        foldl (\<lambda>d (k, v). dict_set d k v) base_aspect_keywords appliance_aspect_keywords,
      category_aspects = init_category_aspects,
      positive_words = set init_positive_words,
      negative_words = set init_negative_words\<rparr>"


section \<open>Sentence sentiment\<close>

definition lemmatize_text :: "libs \<Rightarrow> string \<Rightarrow> string" where
  "lemmatize_text L text =
     (case nltk L of
        None \<Rightarrow> text
      | Some n \<Rightarrow>
          (case word_tokenize n (lower text) of
             None \<Rightarrow> lower text
           | Some tokens \<Rightarrow>
               (case those (map (lemmatize n) tokens) of
                  None \<Rightarrow> lower text
                | Some lemmatized \<Rightarrow> join '' '' lemmatized)))"

definition get_sentence_sentiment :: "libs \<Rightarrow> analyzer \<Rightarrow> string \<Rightarrow> sentiment" where
  "get_sentence_sentiment L a text =
     (let text_lower = lower text;
          words = findall_words [] text_lower;
          pos_count = length (filter (\<lambda>word. word \<in> positive_words a) words);
          neg_count = length (filter (\<lambda>word. word \<in> negative_words a) words);
          pol = polarity L text
      in if pos_count > neg_count \<and> pol \<ge> 0 then Positive
         else if neg_count > pos_count \<and> pol \<le> 0 then Negative
         else if pol > float_0_2 then Positive
         else if pol < - float_0_2 then Negative
         else Neutral)"


section \<open>Aspect extraction\<close>

definition empty_tally :: tally where
  "empty_tally = \<lparr>positive = 0, negative = 0, neutral = 0, mentions = []\<rparr>"

fun incr_tally :: "sentiment \<Rightarrow> tally \<Rightarrow> tally" where
  "incr_tally Positive t = t\<lparr>positive := positive t + 1\<rparr>"
| "incr_tally Negative t = t\<lparr>negative := negative t + 1\<rparr>"
| "incr_tally Neutral t = t\<lparr>neutral := neutral t + 1\<rparr>"

text \<open>\<^verbatim>\<open>aspect_data[aspect][sentiment] += 1\<close> followed by
  \<^verbatim>\<open>aspect_data[aspect]['mentions'].append(review[:150])\<close>, on the \<^verbatim>\<open>defaultdict\<close>.\<close>

definition record_mention ::
  "(string \<times> tally) list \<Rightarrow> string \<Rightarrow> sentiment \<Rightarrow> string \<Rightarrow> (string \<times> tally) list" where
  "record_mention aspect_data aspect s review =
     (let t = (case map_of aspect_data aspect of None \<Rightarrow> empty_tally | Some t \<Rightarrow> t);
          t' = incr_tally s t
      in dict_set aspect_data aspect (t'\<lparr>mentions := mentions t' @ [take 150 review]\<rparr>))"

text \<open>The loop over the keywords of one aspect: the keyword at which it breaks.\<close>

definition matched_keyword :: "string list \<Rightarrow> string \<Rightarrow> string \<Rightarrow> string option" where
  "matched_keyword keywords review_lower review_lemmatized =
     find (\<lambda>keyword. contains (lower keyword) review_lower
                    \<or> contains (lower keyword) review_lemmatized) keywords"

definition extract_pos_aspects ::
  "nltk_lib \<Rightarrow> analyzer \<Rightarrow> string \<Rightarrow> (string \<times> sentiment) list" where
  "extract_pos_aspects n a text =
     (let clean_text = filter (\<lambda>c. is_alpha c \<or> is_digit c \<or> is_space c) (lower text) in
      case word_tokenize n clean_text of
        None \<Rightarrow> []
      | Some tokens \<Rightarrow>
          (case pos_tag n tokens of
             None \<Rightarrow> []
           | Some pos_tags \<Rightarrow>
               concat (map (\<lambda>((word, tag), (next_word, next_tag)).
                              if prefix ''JJ'' tag \<and> prefix ''NN'' next_tag then
                                (if word \<in> positive_words a then [(next_word, Positive)]
                                 else if word \<in> negative_words a then [(next_word, Negative)]
                                 else [])
                              else [])
                           (zip pos_tags (tl pos_tags)))))"

definition active_aspects :: "analyzer \<Rightarrow> string option \<Rightarrow> string set" where
  "active_aspects a category =
     (case category of
        None \<Rightarrow> set (map fst (aspect_keywords a))
      | Some c \<Rightarrow>
          if c \<noteq> [] \<and> c \<in> fst ` set (category_aspects a)
          then set (the (map_of (category_aspects a) c))
          else set (map fst (aspect_keywords a)))"

text \<open>The body of the loop over the reviews in \<^verbatim>\<open>_analyze_aspects\<close>.\<close>

definition analyze_review ::
  "libs \<Rightarrow> analyzer \<Rightarrow> string set \<Rightarrow> (string \<times> tally) list \<Rightarrow> string
     \<Rightarrow> (string \<times> tally) list" where
  "analyze_review L a active aspect_data review =
     (if review = [] then aspect_data
      else
        let review_lower = lower review;
            review_lemmatized = lemmatize_text L review;
            review_sentiment = get_sentence_sentiment L a review;
            data1 = foldl (\<lambda>d (aspect_name, keywords).
                             if aspect_name \<notin> active then d
                             else (case matched_keyword keywords review_lower review_lemmatized of
                                     None \<Rightarrow> d
                                   | Some k \<Rightarrow> record_mention d aspect_name review_sentiment review))
                          aspect_data (aspect_keywords a)
        in case nltk L of
             None \<Rightarrow> data1
           | Some n \<Rightarrow>
               foldl (\<lambda>d (aspect, s). record_mention d aspect s review) data1
                     (extract_pos_aspects n a review))"


section \<open>Aspect verdicts\<close>

definition generate_aspect_reason :: "string \<Rightarrow> sentiment \<Rightarrow> tally \<Rightarrow> string" where
  "generate_aspect_reason aspect s data =
     (let total = positive data + negative data + neutral data in
      case s of
        Positive \<Rightarrow> ''Users praised '' @ aspect @ '' in '' @ str_nat (positive data) @ ''/''
                      @ str_nat total @ '' mentions''
      | Negative \<Rightarrow> ''Users complained about '' @ aspect @ '' in '' @ str_nat (negative data)
                      @ ''/'' @ str_nat total @ '' mentions''
      | Neutral \<Rightarrow> ''Mixed opinions on '' @ aspect @ '' across '' @ str_nat total
                      @ '' mentions'')"

definition format_aspect_result :: "string \<Rightarrow> tally \<Rightarrow> verdict" where
  "format_aspect_result aspect_name data =
     (let total = positive data + negative data + neutral data in
      if total = 0 then
        \<lparr>v_sentiment = Neutral, v_reason = ''Not mentioned'', v_count = Some 0,
         v_distribution = None\<rparr>
      else
        let pos_ratio = py_truediv (positive data) total;
            neg_ratio = py_truediv (negative data) total;
            s = (if pos_ratio > 1 / 2 then Positive
                 else if neg_ratio > 1 / 2 then Negative
                 else Neutral);
            reason = generate_aspect_reason aspect_name s data
        in \<lparr>v_sentiment = s, v_reason = reason, v_count = Some total,
            v_distribution = Some \<lparr>d_positive = positive data, d_negative = negative data,
                                    d_neutral = neutral data\<rparr>\<rparr>)"

definition general_verdict :: verdict where
  "general_verdict =
     \<lparr>v_sentiment = Neutral, v_reason = ''No specific aspects identified in reviews'',
      v_count = None, v_distribution = None\<rparr>"

definition analyze_aspects ::
  "libs \<Rightarrow> analyzer \<Rightarrow> string list \<Rightarrow> string option \<Rightarrow> (string \<times> verdict) list" where
  "analyze_aspects L a reviews category =
     (let aspect_data = foldl (analyze_review L a (active_aspects a category)) [] reviews;
          final_aspects =
            foldl (\<lambda>final (aspect, data).
                     if positive data + negative data + neutral data \<ge> 1
                     then dict_set final (capitalize aspect) (format_aspect_result aspect data)
                     else final)
                  [] aspect_data
      in case final_aspects of
           [] \<Rightarrow> dict_set final_aspects ''General'' general_verdict
         | _ # _ \<Rightarrow> final_aspects)"

section \<open>Overall feedback, summary and themes\<close>

definition zero_counts :: distribution where
  "zero_counts = \<lparr>d_positive = 0, d_negative = 0, d_neutral = 0\<rparr>"

fun incr_count :: "sentiment \<Rightarrow> distribution \<Rightarrow> distribution" where
  "incr_count Positive d = d\<lparr>d_positive := d_positive d + 1\<rparr>"
| "incr_count Negative d = d\<lparr>d_negative := d_negative d + 1\<rparr>"
| "incr_count Neutral d = d\<lparr>d_neutral := d_neutral d + 1\<rparr>"

text \<open>The loop \<^verbatim>\<open>for r in reviews: sentiments[self._get_sentence_sentiment(r)] += 1\<close>,
  which \<^verbatim>\<open>_generate_overall_feedback\<close> and \<^verbatim>\<open>_analyze_theme_sentiment\<close> share.\<close>

definition count_sentiments :: "libs \<Rightarrow> analyzer \<Rightarrow> string list \<Rightarrow> distribution" where
  "count_sentiments L a reviews =
     foldl (\<lambda>sentiments r. incr_count (get_sentence_sentiment L a r) sentiments)
           zero_counts reviews"

definition names_with :: "sentiment \<Rightarrow> (string \<times> verdict) list \<Rightarrow> string list" where
  "names_with s aspects = map fst (filter (\<lambda>(k, v). v_sentiment v = s) aspects)"

definition generate_overall_feedback ::
  "libs \<Rightarrow> analyzer \<Rightarrow> string list \<Rightarrow> (string \<times> verdict) list \<Rightarrow> string" where
  "generate_overall_feedback L a reviews aspects =
     (let sentiments = count_sentiments L a reviews;
          sum = d_positive sentiments + d_negative sentiments + d_neutral sentiments;
          total = (if sum = 0 then 1 else sum);
          pos_pct = py_fmul (py_truediv (d_positive sentiments) total) 100;
          neg_pct = py_fmul (py_truediv (d_negative sentiments) total) 100;
          positives = names_with Positive aspects;
          negatives = names_with Negative aspects
      in strip
          (if pos_pct > 60 then
             ''Highly recommended product with '' @ fmt_0f pos_pct @ ''% positive reviews. ''
             @ (if positives \<noteq> []
                then ''Strong points: '' @ join '', '' (take 3 positives) @ ''. '' else [])
             @ (if negatives \<noteq> []
                then ''Minor concerns: '' @ join '', '' (take 2 negatives) @ ''.'' else [])
           else if neg_pct > 50 then
             ''Product has significant issues ('' @ fmt_0f neg_pct @ ''% negative reviews). ''
             @ (if negatives \<noteq> []
                then ''Main problems: '' @ join '', '' (take 3 negatives) @ ''. '' else [])
             @ ''Consider alternatives carefully.''
           else
             ''Mixed reviews ('' @ fmt_0f pos_pct @ ''% positive, '' @ fmt_0f neg_pct
             @ ''% negative). ''
             @ (if positives \<noteq> []
                then ''Strengths: '' @ join '', '' (take 2 positives) @ ''. '' else [])
             @ (if negatives \<noteq> []
                then ''Weaknesses: '' @ join '', '' (take 2 negatives) @ ''.'' else [])))"

text \<open>\<^verbatim>\<open>sorted(xs, key=k, reverse=True)\<close> is stable: it orders by falling key and keeps
  entries of equal key in their order in \<^verbatim>\<open>xs\<close>, as the stable insertion sort does on
  the negated key.\<close>

definition sorted_desc :: "('a \<Rightarrow> nat) \<Rightarrow> 'a list \<Rightarrow> 'a list" where
  "sorted_desc k xs = sort_key (\<lambda>x. - int (k x)) xs"

text \<open>The bullet U+2022 in UTF-8.\<close>

definition bullet :: string where
  "bullet = [CHR 0xE2, CHR 0x80, CHR 0xA2]"

definition count_or_0 :: "string \<times> verdict \<Rightarrow> nat" where
  "count_or_0 x = (case v_count (snd x) of None \<Rightarrow> 0 | Some c \<Rightarrow> c)"

definition summary_line :: "string \<times> verdict \<Rightarrow> string" where
  "summary_line x =
     (case x of (aspect, data) \<Rightarrow>
        bullet @ '' '' @ aspect @ '': '' @ capitalize (sentiment_str (v_sentiment data))
        @ '' - '' @ v_reason data)"

definition build_summary :: "(string \<times> verdict) list \<Rightarrow> string" where
  "build_summary aspects =
     (let lines = map summary_line (take 5 (sorted_desc count_or_0 aspects)) in
      if lines \<noteq> [] then join [CHR 0x0A] lines else ''Limited feedback available'')"

definition theme_patterns :: "(string \<times> string list) list" where
  "theme_patterns =
    [(''Value for Money'', [''value'', ''price'', ''worth'', ''money'', ''vfm'']),
     (''Build Quality'', [''quality'', ''build'', ''premium'', ''material'', ''construction'']),
     (''User Experience'', [''experience'', ''easy'', ''user'', ''interface'', ''usability'']),
     (''Reliability'', [''reliable'', ''durable'', ''lasting'', ''trust'', ''dependable'']),
     (''After Sales'', [''service'', ''support'', ''warranty'', ''replacement'', ''customer''])]"

definition analyze_theme_sentiment :: "libs \<Rightarrow> analyzer \<Rightarrow> string list \<Rightarrow> theme_sentiment" where
  "analyze_theme_sentiment L a ms =
     (let sentiments = count_sentiments L a ms;
          total = d_positive sentiments + d_negative sentiments + d_neutral sentiments
      in if d_positive sentiments > d_negative sentiments then
           \<lparr>ts_sentiment = Positive,
            ts_reason = ''Positive feedback in '' @ str_nat (d_positive sentiments) @ ''/''
                        @ str_nat total @ '' reviews''\<rparr>
         else if d_negative sentiments > d_positive sentiments then
           \<lparr>ts_sentiment = Negative,
            ts_reason = ''Concerns raised in '' @ str_nat (d_negative sentiments) @ ''/''
                        @ str_nat total @ '' reviews''\<rparr>
         else
           \<lparr>ts_sentiment = Neutral,
            ts_reason = ''Mixed opinions across '' @ str_nat total @ '' reviews''\<rparr>)"

text \<open>The reviews that mention a theme.\<close>

definition theme_mentions :: "string list \<Rightarrow> string list \<Rightarrow> string list" where
  "theme_mentions keywords reviews =
     filter (\<lambda>r. list_ex (\<lambda>k. contains k (lower r)) keywords) reviews"

definition extract_key_themes :: "libs \<Rightarrow> analyzer \<Rightarrow> string list \<Rightarrow> theme list" where
  "extract_key_themes L a reviews =
     (let themes =
            foldl (\<lambda>themes (name, keywords).
                     let ms = theme_mentions keywords reviews in
                     if length ms \<ge> 1 then
                       (let s = analyze_theme_sentiment L a ms in
                        themes @ [\<lparr>t_theme = name, t_sentiment = ts_sentiment s,
                                   t_reason = ts_reason s, t_mention_count = length ms\<rparr>])
                     else themes)
                  [] theme_patterns
      in take 5 (sorted_desc t_mention_count themes))"


section \<open>Competitors and confidence\<close>

definition recommend_competitors :: "string \<Rightarrow> competitors_info" where
  "recommend_competitors product_name =
     (let category = detect_product_category product_name;
          competitors = (case map_of COMPETITOR_MAP category of None \<Rightarrow> [] | Some cs \<Rightarrow> cs);
          detected_brand = find (\<lambda>brand. contains (lower brand) (lower product_name))
                                (map fst BRAND_TO_CATEGORY);
          competitors' = (case detected_brand of
                            None \<Rightarrow> competitors
                          | Some b \<Rightarrow> filter (\<lambda>c. lower c \<noteq> lower b) competitors)
      in \<lparr>ci_category = category, ci_detected_brand = detected_brand,
          ci_competitors = take 5 competitors'\<rparr>)"

definition generate_competitor_reason ::
  "string \<Rightarrow> string \<Rightarrow> string list \<Rightarrow> nat \<Rightarrow> string" where
  "generate_competitor_reason brand category weak_aspects index =
     (let base_reason =
            (if index = 0 then
               ''Alternative '' @ category @ '' option with established brand reputation''
             else if index = 1 then ''Known for reliability in the '' @ category @ '' segment''
             else if index = 2 then ''Popular choice offering competitive features''
             else if index = 3 then ''Budget-friendly alternative in '' @ category @ '' category''
             else ''Alternative '' @ category @ '' option'')
      in if ''battery'' \<in> set weak_aspects then
           base_reason @ '' - known for better battery performance''
         else if ''camera'' \<in> set weak_aspects then
           base_reason @ '' - strong camera capabilities''
         else if ''performance'' \<in> set weak_aspects then
           base_reason @ '' - superior processing power''
         else base_reason)"

definition build_competitor_recommendations ::
  "string \<Rightarrow> string \<Rightarrow> string list \<Rightarrow> (string \<times> verdict) list \<Rightarrow> recommendation list" where
  "build_competitor_recommendations product_name category competitors aspects =
     (let weak_aspects = map lower (names_with Negative aspects) in
      map (\<lambda>(i, comp).
             \<lparr>r_name = comp @ '' '' @ title (replace_char CHR ''_'' CHR '' '' category)
                       @ '' Series'',
              r_reason = generate_competitor_reason comp category weak_aspects i,
              r_category = category\<rparr>)
          (enumerate 0 (take 4 competitors)))"

definition calculate_confidence :: "string list \<Rightarrow> (string \<times> verdict) list \<Rightarrow> string" where
  "calculate_confidence reviews aspects =
     (let review_count = length reviews;
          aspect_count = length (filter (\<lambda>k. k \<noteq> ''General'') (map fst aspects))
      in if review_count \<ge> 20 \<and> aspect_count \<ge> 5 then ''High''
         else if review_count \<ge> 10 \<and> aspect_count \<ge> 3 then ''Medium''
         else ''Low'')"


section \<open>The analysis\<close>

definition empty_analysis :: "string \<Rightarrow> analysis" where
  "empty_analysis product_name =
     \<lparr>res_product_name = product_name,
      res_category = detect_product_category product_name,
      res_overall_feedback = ''No reviews available for analysis'',
      res_aspects = [],
      res_summary = ''No customer feedback found'',
      res_key_themes = [],
      res_recommended_products = [],
      res_review_count = 0,
      res_analysis_confidence = ''None''\<rparr>"

text \<open>The value bound to \<^verbatim>\<open>text\<close> in \<^verbatim>\<open>_clean_reviews\<close> before \<^verbatim>\<open>str(text).strip()\<close>.\<close>

definition raw_text :: "review \<Rightarrow> pyval" where
  "raw_text r =
     (case r of
        Dict d \<Rightarrow>
          py_or (dict_get d ''review_text'')
            (py_or (dict_get d ''review'')
              (py_or (dict_get d ''text'')
                (py_or (dict_get d ''body'')
                  (py_or (dict_get d ''content'') (PyStr [])))))
      | Plain v \<Rightarrow> PyStr (py_str v))"

fun clean_reviews :: "review list \<Rightarrow> string list" where
  "clean_reviews [] = []"
| "clean_reviews (r # rs) =
     (let text = strip (py_str (raw_text r)) in
      if text \<noteq> [] then text # clean_reviews rs else clean_reviews rs)"

definition analyze_reviews :: "libs \<Rightarrow> analyzer \<Rightarrow> string \<Rightarrow> review list \<Rightarrow> analysis" where
  "analyze_reviews L a product_name reviews =
     (case reviews of
        [] \<Rightarrow> empty_analysis product_name
      | _ # _ \<Rightarrow>
          let rec_data = recommend_competitors product_name;
              category = ci_category rec_data;
              competitors = ci_competitors rec_data;
              clean = clean_reviews reviews;
              aspect_sentiments = analyze_aspects L a clean (Some category);
              overall = generate_overall_feedback L a clean aspect_sentiments;
              themes = extract_key_themes L a clean;
              competitors_data =
                build_competitor_recommendations product_name category competitors
                  aspect_sentiments
          in \<lparr>res_product_name = product_name,
              res_category = category,
              res_overall_feedback = overall,
              res_aspects = aspect_sentiments,
              res_summary = build_summary aspect_sentiments,
              res_key_themes = themes,
              res_recommended_products = competitors_data,
              res_review_count = length clean,
              res_analysis_confidence = calculate_confidence clean aspect_sentiments\<rparr>)"


section \<open>The text of a review entry as specified\<close>

text \<open>The five fields that may hold the text of a record-shaped entry, in the order in
  which they are tried.\<close>

definition TEXT_FIELDS :: "string list" where
  "TEXT_FIELDS = [''review_text'', ''review'', ''text'', ''body'', ''content'']"

text \<open>A field is present and non-null when looking it up gives something other than
  \<^verbatim>\<open>None\<close>.\<close>

fun non_null :: "pyval \<Rightarrow> bool" where
  "non_null PyNone = False"
| "non_null v = True"

text \<open>Whether a value is a string (\<^verbatim>\<open>isinstance(v, str)\<close>).\<close>

fun is_str :: "pyval \<Rightarrow> bool" where
  "is_str (PyStr s) = True"
| "is_str v = False"

text \<open>The value of the first of the five fields that passes a test, and the empty string
  if none does. With the test \<^const>\<open>non_null\<close> this is the specification's rule "first
  present, non-null field wins".\<close>

definition first_field_where :: "(pyval \<Rightarrow> bool) \<Rightarrow> (string \<rightharpoonup> pyval) \<Rightarrow> pyval" where
  "first_field_where ok d =
     (case find (\<lambda>k. ok (dict_get d k)) TEXT_FIELDS of
        Some k \<Rightarrow> dict_get d k
      | None \<Rightarrow> PyStr [])"


section \<open>A library instance for concrete evaluations\<close>

text \<open>
  The evaluations at concrete reviews below need the libraries at concrete texts. In this
  instance NLTK is unavailable (\<^verbatim>\<open>NLTK_AVAILABLE = False\<close>), and the polarity stands in
  for TextBlob's on the texts used below: 0.7 for a text with the word \<^verbatim>\<open>good\<close>, -0.7 for
  one with the word \<^verbatim>\<open>bad\<close>, and 0 for a text with neither. The source compares the
  polarity with 0 and with 0.2 only.
\<close>

definition demo_libs :: libs where
  "demo_libs =
     \<lparr>polarity = (\<lambda>text. if contains ''good'' (lower text) then 7 / 10
                        else if contains ''bad'' (lower text) then - (7 / 10)
                        else 0),
      nltk = None\<rparr>"


section \<open>Category detection as specified\<close>

text \<open>
  The specification's algorithm for the category: the category of the first brand of the
  brand table whose name occurs, case-insensitively, in the product name; failing that,
  the category of the first keyword list, in the order of the table, of which a keyword
  occurs in the product name; failing that, \<^verbatim>\<open>general\<close>.
\<close>

definition spec_detect_category ::
  "(string \<times> string) list \<Rightarrow> (string \<times> string list) list \<Rightarrow> string \<Rightarrow> string" where
  "spec_detect_category brands keywords product_name =
     (case find (\<lambda>(brand, category). contains (lower brand) (lower product_name)) brands of
        Some (brand, category) \<Rightarrow> category
      | None \<Rightarrow>
          (case find (\<lambda>(category, ks). list_ex (\<lambda>k. contains (lower k) (lower product_name)) ks)
                     keywords of
             Some (category, ks) \<Rightarrow> category
           | None \<Rightarrow> ''general''))"

text \<open>The keyword lists that the specification enumerates, in its order.\<close>

definition SPEC_KEYWORDS :: "(string \<times> string list) list" where
  "SPEC_KEYWORDS =
    [(''mobile'', [''phone'', ''mobile'', ''smartphone'']),
     (''laptop'', [''laptop'', ''notebook'', ''macbook'', ''chromebook'']),
     (''television'', [''tv'', ''television'', ''qled'']),
     (''audio'', [''earphone'', ''headphone'', ''earbud'', ''speaker'', ''soundbar'']),
     (''footwear'', [''shoe'', ''slipper'', ''sandal'', ''boot'', ''sneaker'']),
     (''fashion'', [''shirt'', ''pant'', ''jean'', ''dress'', ''tshirt'', ''kurti'']),
     (''home_appliance'', [''refrigerator'', ''washing'', ''microwave'', ''ac'', ''cooler''])]"

text \<open>The same lists with \<^verbatim>\<open>5g\<close> added to the keywords of \<^verbatim>\<open>mobile\<close>.\<close>

definition KEYWORDS_WITH_5G :: "(string \<times> string list) list" where
  "KEYWORDS_WITH_5G =
     (''mobile'', [''phone'', ''mobile'', ''smartphone'', ''5g'']) # tl SPEC_KEYWORDS"


section \<open>The majority vote as specified\<close>

text \<open>The specification's rule for the sentiment of a theme: the majority vote of the
  three counts, ties resolving to neutral. A sentiment wins when it has more votes than
  each of the other two.\<close>

definition majority_vote :: "distribution \<Rightarrow> sentiment" where
  "majority_vote d =
     (if d_positive d > d_negative d \<and> d_positive d > d_neutral d then Positive
      else if d_negative d > d_positive d \<and> d_negative d > d_neutral d then Negative
      else Neutral)"


section \<open>Competitor recommendations as specified\<close>

text \<open>The candidates for a product: the competitor brands of its category, in the order
  of the table, without the brand detected in the product name (compared without regard
  to case), if one is detected.\<close>

definition candidates :: "string \<Rightarrow> string list" where
  "candidates product_name =
     (let table_entry = (case map_of COMPETITOR_MAP (detect_product_category product_name) of
                           None \<Rightarrow> [] | Some cs \<Rightarrow> cs)
      in case find (\<lambda>brand. contains (lower brand) (lower product_name))
                   (map fst BRAND_TO_CATEGORY) of
           None \<Rightarrow> table_entry
         | Some b \<Rightarrow> filter (\<lambda>c. lower c \<noteq> lower b) table_entry)"

text \<open>The four positional templates, for the indices 0 to 3.\<close>

definition REASON_TEMPLATES :: "string \<Rightarrow> string list" where
  "REASON_TEMPLATES category =
     [''Alternative '' @ category @ '' option with established brand reputation'',
      ''Known for reliability in the '' @ category @ '' segment'',
      ''Popular choice offering competitive features'',
      ''Budget-friendly alternative in '' @ category @ '' category'']"

text \<open>The clause for the weak aspects: at most one, \<^verbatim>\<open>battery\<close> before \<^verbatim>\<open>camera\<close> before
  \<^verbatim>\<open>performance\<close>.\<close>

definition weakness_clause :: "string list \<Rightarrow> string" where
  "weakness_clause weak =
     (if ''battery'' \<in> set weak then '' - known for better battery performance''
      else if ''camera'' \<in> set weak then '' - strong camera capabilities''
      else if ''performance'' \<in> set weak then '' - superior processing power''
      else [])"

text \<open>The recommendations: one for each of the first four candidates, the \<open>i\<close>-th with
  the \<open>i\<close>-th template.\<close>

definition spec_recommendations ::
  "string \<Rightarrow> string list \<Rightarrow> string list \<Rightarrow> recommendation list" where
  "spec_recommendations category cands weak =
     map (\<lambda>i. \<lparr>r_name = cands ! i @ '' '' @ title (replace_char CHR ''_'' CHR '' '' category)
                        @ '' Series'',
               r_reason = REASON_TEMPLATES category ! i @ weakness_clause weak,
               r_category = category\<rparr>)
         [0..<min 4 (length cands)]"


section \<open>Substrings\<close>

lemma contains_iff_sublist: "contains k s \<longleftrightarrow> sublist k s"
  by (induction s) (auto simp: sublist_Cons_right)

lemma contains_trans: "contains a b \<Longrightarrow> contains b c \<Longrightarrow> contains a c"
  unfolding contains_iff_sublist by (rule sublist_order.order_trans)


section \<open>Cleaning the reviews\<close>

lemma clean_reviews_append: "clean_reviews (xs @ ys) = clean_reviews xs @ clean_reviews ys"
  by (induction xs) (auto simp: Let_def)

lemma category_recommend_competitors:
  "ci_category (recommend_competitors p) = detect_product_category p"
  by (simp add: recommend_competitors_def Let_def)

lemma analyze_reviews_nonempty:
  assumes "reviews \<noteq> []"
  shows "res_review_count (analyze_reviews L a p reviews) = length (clean_reviews reviews)"
    and "res_aspects (analyze_reviews L a p reviews)
         = analyze_aspects L a (clean_reviews reviews) (Some (detect_product_category p))"
    and "res_key_themes (analyze_reviews L a p reviews)
         = extract_key_themes L a (clean_reviews reviews)"
  using assms
  by (cases reviews; simp add: analyze_reviews_def Let_def category_recommend_competitors)+

lemma raw_text_first_truthy: "raw_text (Dict d) = first_field_where truthy d"
  by (simp add: raw_text_def first_field_where_def TEXT_FIELDS_def py_or_def)

lemma strip_Nil: "strip [] = []"
  by (simp add: strip_def)

lemma no_truthy_field_dropped:
  assumes "\<forall>k \<in> set TEXT_FIELDS. \<not> truthy (dict_get d k)"
  shows "clean_reviews [Dict d] = []"
proof -
  have "find (\<lambda>k. truthy (dict_get d k)) TEXT_FIELDS = None"
    using assms by (simp add: find_None_iff)
  then have "raw_text (Dict d) = PyStr []"
    by (simp add: raw_text_first_truthy first_field_where_def)
  then show ?thesis by (simp add: strip_Nil)
qed

lemma ord_chr: "n < 256 \<Longrightarrow> ord (chr n) = n"
  by (simp add: ord_def chr_def)

lemma str_nat_digits: "str_nat n \<noteq> [] \<and> (\<forall>c \<in> set (str_nat n). is_digit c)"
proof (induction n rule: str_nat.induct)
  case (1 n)
  show ?case
  proof (cases "n < 10")
    case True
    then show ?thesis
      by (subst (1 2) str_nat.simps) (simp add: is_digit_def ord_chr)
  next
    case False
    have "n mod 10 < 10" by simp
    then have "is_digit (chr (48 + n mod 10))"
      by (simp add: is_digit_def ord_chr)
    with False 1 show ?thesis
      by (subst (1 2) str_nat.simps) auto
  qed
qed

lemma digit_not_space: "is_digit c \<Longrightarrow> \<not> is_space c"
  by (auto simp: is_digit_def is_space_def)

lemma strip_id:
  assumes "s \<noteq> []" "\<not> is_space (hd s)" "\<not> is_space (last s)"
  shows "strip s = s"
proof -
  have 1: "dropWhile is_space s = s"
    using assms by (cases s) auto
  have "dropWhile is_space (rev s) = rev s"
    using assms by (cases "rev s") (auto simp: last_rev [symmetric] simp del: last_rev)
  with 1 show ?thesis by (simp add: strip_def)
qed

lemma strip_str_int: "strip (str_int i) = str_int i" and str_int_nonempty: "str_int i \<noteq> []"
proof -
  have d: "str_nat n \<noteq> []" "\<not> is_space (hd (str_nat n))" "\<not> is_space (last (str_nat n))" for n
    using str_nat_digits [of n] digit_not_space by auto
  have m: "\<not> is_space CHR ''-''" by code_simp
  show "strip (str_int i) = str_int i"
    by (rule strip_id) (use d m in \<open>auto simp: str_int_def\<close>)
  show "str_int i \<noteq> []"
    using d by (simp add: str_int_def)
qed

lemma non_string_text_kept:
  assumes "truthy v" "\<not> is_str v" "first_field_where truthy e = v"
  shows "clean_reviews [Dict e] = [py_str v]"
proof -
  have r: "raw_text (Dict e) = v"
    using assms(3) by (simp add: raw_text_first_truthy)
  have t: "strip ''True'' = ''True''"
    by code_simp
  from assms(1,2) have "strip (py_str v) = py_str v \<and> py_str v \<noteq> []"
    by (cases v) (simp_all add: t strip_str_int str_int_nonempty)
  then show ?thesis by (simp add: r)
qed


text \<open>
  Claim C2, as the source has it. A record-shaped entry none of whose five text fields
  holds a truthy value (the field is missing, or is \<^verbatim>\<open>None\<close>, \<^verbatim>\<open>False\<close>, 0 or the empty
  string) is dropped by the cleaning step: the cleaned list, the review count, the aspects
  and the themes are those of the list without the entry, and no error is raised. A text
  that is not a string is not dropped for that reason: whenever the first truthy value
  among the five fields is not a string (a non-zero integer or \<^verbatim>\<open>True\<close>, under any of the
  five fields), it is converted with \<^verbatim>\<open>str\<close> and kept as a review, and it counts toward
  the review count.
\<close>

theorem clean_reviews_textless_dropped:
  "((\<forall>k \<in> set TEXT_FIELDS. \<not> truthy (dict_get d k)) \<longrightarrow>
      clean_reviews (xs @ Dict d # ys) = clean_reviews (xs @ ys)
      \<and> res_review_count (analyze_reviews L a p (xs @ Dict d # ys))
          = length (clean_reviews (xs @ ys))
      \<and> res_aspects (analyze_reviews L a p (xs @ Dict d # ys))
          = analyze_aspects L a (clean_reviews (xs @ ys)) (Some (detect_product_category p))
      \<and> res_key_themes (analyze_reviews L a p (xs @ Dict d # ys))
          = extract_key_themes L a (clean_reviews (xs @ ys)))
   \<and> (truthy v \<and> \<not> is_str v \<and> first_field_where truthy e = v \<longrightarrow>
        clean_reviews (xs @ Dict e # ys)
          = clean_reviews xs @ [py_str v] @ clean_reviews ys
        \<and> res_review_count (analyze_reviews L a p (xs @ Dict e # ys))
          = length (clean_reviews xs) + 1 + length (clean_reviews ys))"
proof (intro conjI impI)
  assume h: "\<forall>k \<in> set TEXT_FIELDS. \<not> truthy (dict_get d k)"
  have c: "clean_reviews (xs @ Dict d # ys) = clean_reviews (xs @ ys)"
    using clean_reviews_append [of xs "[Dict d] @ ys"] clean_reviews_append [of "[Dict d]" ys]
      no_truthy_field_dropped [OF h] clean_reviews_append [of xs ys]
    by simp
  have ne: "xs @ Dict d # ys \<noteq> []" by simp
  show "clean_reviews (xs @ Dict d # ys) = clean_reviews (xs @ ys)" by (rule c)
  show "res_review_count (analyze_reviews L a p (xs @ Dict d # ys))
          = length (clean_reviews (xs @ ys))"
    using analyze_reviews_nonempty(1) [OF ne] c by simp
  show "res_aspects (analyze_reviews L a p (xs @ Dict d # ys))
          = analyze_aspects L a (clean_reviews (xs @ ys)) (Some (detect_product_category p))"
    using analyze_reviews_nonempty(2) [OF ne] c by simp
  show "res_key_themes (analyze_reviews L a p (xs @ Dict d # ys))
          = extract_key_themes L a (clean_reviews (xs @ ys))"
    using analyze_reviews_nonempty(3) [OF ne] c by simp
next
  assume h: "truthy v \<and> \<not> is_str v \<and> first_field_where truthy e = v"
  then have k: "clean_reviews [Dict e] = [py_str v]"
    by (intro non_string_text_kept) simp_all
  then show c: "clean_reviews (xs @ Dict e # ys) = clean_reviews xs @ [py_str v] @ clean_reviews ys"
    using clean_reviews_append [of xs "[Dict e] @ ys"] clean_reviews_append [of "[Dict e]" ys]
    by simp
  have ne: "xs @ Dict e # ys \<noteq> []" by simp
  show "res_review_count (analyze_reviews L a p (xs @ Dict e # ys))
          = length (clean_reviews xs) + 1 + length (clean_reviews ys)"
    using analyze_reviews_nonempty(1) [OF ne] c by simp
qed

theorem clean_reviews_textless_dropped_witness:
  "clean_reviews ([Plain (PyStr ''good phone'')] @ Dict [''rating'' \<mapsto> PyInt 4] # [])
       = [''good phone'']
   \<and> res_review_count
        (analyze_reviews demo_libs new_analyzer ''Phone''
           ([Plain (PyStr ''good phone'')] @ Dict [''rating'' \<mapsto> PyInt 4] # []))
       = 1
   \<and> clean_reviews ([Plain (PyStr ''good phone'')]
                     @ Dict [''review_text'' \<mapsto> PyNone, ''review'' \<mapsto> PyBool True] # [])
       = [''good phone'', ''True'']
   \<and> res_review_count
        (analyze_reviews demo_libs new_analyzer ''Phone''
           ([Plain (PyStr ''good phone'')]
            @ Dict [''review_text'' \<mapsto> PyNone, ''review'' \<mapsto> PyBool True] # []))
       = 2"
proof -
  have h: "\<forall>k \<in> set TEXT_FIELDS. \<not> truthy (dict_get [''rating'' \<mapsto> PyInt 4] k)"
    by (simp add: TEXT_FIELDS_def dict_get_def)
  have f: "first_field_where truthy [''review_text'' \<mapsto> PyNone, ''review'' \<mapsto> PyBool True]
           = PyBool True"
    by code_simp
  have g: "truthy (PyBool True) \<and> \<not> is_str (PyBool True)
           \<and> first_field_where truthy [''review_text'' \<mapsto> PyNone, ''review'' \<mapsto> PyBool True]
               = PyBool True"
    using f by simp
  have c: "clean_reviews ([Plain (PyStr ''good phone'')] @ []) = [''good phone'']"
    by code_simp
  have c1: "clean_reviews [Plain (PyStr ''good phone'')] = [''good phone'']"
    by code_simp
  show ?thesis
    using clean_reviews_textless_dropped
      [of "[''rating'' \<mapsto> PyInt 4]" "[Plain (PyStr ''good phone'')]" "[]" demo_libs
          new_analyzer "''Phone''" "PyBool True"
          "[''review_text'' \<mapsto> PyNone, ''review'' \<mapsto> PyBool True]"]
      h g c c1
    by simp
qed

text \<open>
  Claim C2 as stated, that an entry whose text is not a string is dropped and counts
  toward no review count, fails: the entry \<^verbatim>\<open>{"review_text": 5}\<close> is cleaned to the review
  \<^verbatim>\<open>"5"\<close> and counted.
\<close>

theorem non_string_text_counterexample:
  "clean_reviews [Dict [''review_text'' \<mapsto> PyInt 5]] = [''5'']
   \<and> res_review_count
        (analyze_reviews demo_libs new_analyzer ''Phone'' [Dict [''review_text'' \<mapsto> PyInt 5]])
     = 1"
  by code_simp






section \<open>Rounding to a double\<close>

lemma log2floor_bounds: "0 < n \<Longrightarrow> 2 ^ log2floor n \<le> n \<and> n < 2 ^ Suc (log2floor n)"
proof (induction n rule: log2floor.induct)
  case (1 n)
  show ?case
  proof (cases "n < 2")
    case True
    with 1 show ?thesis by (subst (1 2) log2floor.simps) auto
  next
    case False
    then have "0 < n div 2" by simp
    with 1 False have ih: "2 ^ log2floor (n div 2) \<le> n div 2"
      "n div 2 < 2 ^ Suc (log2floor (n div 2))" by auto
    have l: "log2floor n = Suc (log2floor (n div 2))"
      using False by (subst log2floor.simps) simp
    from ih show ?thesis unfolding l by auto
  qed
qed

lemma binade_bounds:
  assumes "0 < x"
  shows "2 powi binade x \<le> x" and "x < 2 powi (binade x + 1)"
proof -
  obtain a b where q: "quotient_of x = (a, b)" by (cases "quotient_of x")
  have b: "0 < b" using q by (rule quotient_of_denom_pos)
  have x: "x = of_int a / of_int b" using q by (rule quotient_of_div)
  have a: "0 < a" using assms b unfolding x by (simp add: zero_less_divide_iff)
  define la lb where "la = log2floor (nat a)" and "lb = log2floor (nat b)"
  define k where "k = int la - int lb"
  have A: "2 ^ la \<le> nat a" "nat a < 2 ^ Suc la"
    using log2floor_bounds [of "nat a"] a by (auto simp: la_def)
  have B: "2 ^ lb \<le> nat b" "nat b < 2 ^ Suc lb"
    using log2floor_bounds [of "nat b"] b by (auto simp: lb_def)
  have ra: "(2::rat) ^ la \<le> of_int a" "of_int a < (2::rat) ^ Suc la"
  proof -
    have "(of_nat (2 ^ la) :: rat) \<le> of_nat (nat a)" using A(1) by (simp only: of_nat_le_iff)
    then show "(2::rat) ^ la \<le> of_int a" using a by simp
    have "(of_nat (nat a) :: rat) < of_nat (2 ^ Suc la)" using A(2) by (simp only: of_nat_less_iff)
    then show "of_int a < (2::rat) ^ Suc la" using a by simp
  qed
  have rb: "(2::rat) ^ lb \<le> of_int b" "of_int b < (2::rat) ^ Suc lb"
  proof -
    have "(of_nat (2 ^ lb) :: rat) \<le> of_nat (nat b)" using B(1) by (simp only: of_nat_le_iff)
    then show "(2::rat) ^ lb \<le> of_int b" using b by simp
    have "(of_nat (nat b) :: rat) < of_nat (2 ^ Suc lb)" using B(2) by (simp only: of_nat_less_iff)
    then show "of_int b < (2::rat) ^ Suc lb" using b by simp
  qed
  have pk: "(2::rat) powi k = 2 ^ la / 2 ^ lb"
    by (simp add: k_def power_int_diff)
  have bpos: "(0::rat) < of_int b" using b by simp
  have up: "x < 2 powi (k + 1)"
  proof -
    have "x * of_int b = of_int a" using bpos by (simp add: x)
    also have "\<dots> < 2 ^ Suc la" by (rule ra(2))
    also have "\<dots> = 2 powi (k + 1) * 2 ^ lb"
      by (simp add: power_int_add pk)
    also have "\<dots> \<le> 2 powi (k + 1) * of_int b"
      using rb(1) by (intro mult_left_mono) auto
    finally show ?thesis using bpos by simp
  qed
  have lo: "2 powi (k - 1) \<le> x"
  proof -
    have "(2::rat) powi (k - 1) * of_int b \<le> 2 powi (k - 1) * 2 ^ Suc lb"
      using rb(2) by (intro mult_left_mono) auto
    also have "\<dots> = 2 ^ la"
      by (simp add: power_int_diff pk)
    also have "\<dots> \<le> of_int a" by (rule ra(1))
    also have "\<dots> = x * of_int b" using bpos by (simp add: x)
    finally show ?thesis using bpos by simp
  qed
  have bin: "binade x = (if 2 powi k \<le> x then k else k - 1)"
    by (simp add: binade_def q k_def la_def lb_def Let_def)
  show "2 powi binade x \<le> x" using lo by (simp add: bin)
  show "x < 2 powi (binade x + 1)" using up by (auto simp: bin not_le)
qed

lemma round_half_even_ge: "of_int N \<le> x \<Longrightarrow> N \<le> round_half_even x"
proof -
  assume "of_int N \<le> x"
  then have "N \<le> \<lfloor>x\<rfloor>" by (simp add: le_floor_iff)
  then show ?thesis by (auto simp: round_half_even_def Let_def)
qed

lemma round_half_even_le: "x \<le> of_int N \<Longrightarrow> round_half_even x \<le> N"
proof -
  assume h: "x \<le> of_int N"
  show ?thesis
  proof (cases "x = of_int \<lfloor>x\<rfloor>")
    case True
    then have "x - of_int \<lfloor>x\<rfloor> = 0" by simp
    then have "round_half_even x = \<lfloor>x\<rfloor>" by (simp add: round_half_even_def Let_def)
    moreover have "\<lfloor>x\<rfloor> \<le> N" using h by (simp add: floor_le_iff)
    ultimately show ?thesis by simp
  next
    case False
    then have "of_int \<lfloor>x\<rfloor> < x" using of_int_floor_le [of x] by linarith
    then have "of_int \<lfloor>x\<rfloor> < (of_int N :: rat)" using h by linarith
    then have "\<lfloor>x\<rfloor> < N" by (simp only: of_int_less_iff)
    then show ?thesis by (auto simp: round_half_even_def Let_def)
  qed
qed

lemma round_half_even_gt: "of_int N + 1 / 2 < x \<Longrightarrow> N + 1 \<le> round_half_even x"
proof -
  assume h: "of_int N + 1 / 2 < x"
  then have "of_int N \<le> x" by simp
  then have f: "N \<le> \<lfloor>x\<rfloor>" by (simp add: le_floor_iff)
  show ?thesis
  proof (cases "N = \<lfloor>x\<rfloor>")
    case True
    then have "1 / 2 < x - of_int \<lfloor>x\<rfloor>" using h by simp
    then show ?thesis using True by (simp add: round_half_even_def Let_def)
  next
    case False
    with f have "N + 1 \<le> \<lfloor>x\<rfloor>" by simp
    then show ?thesis by (auto simp: round_half_even_def Let_def)
  qed
qed

lemma pow2_less_cancel: "(2::rat) powi m < 2 powi n \<Longrightarrow> m < n"
proof (rule ccontr)
  assume h: "(2::rat) powi m < 2 powi n" and "\<not> m < n"
  then have "n \<le> m" by simp
  then have "(2::rat) powi n \<le> 2 powi m" by (intro power_int_increasing) auto
  with h show False by simp
qed

lemma dbl_pos:
  "0 < x \<Longrightarrow> dbl x = of_int (round_half_even (x / 2 powi (binade x - 52))) * 2 powi (binade x - 52)"
  by (simp add: dbl_def Let_def)

lemma dbl_bounds:
  assumes "0 < x"
  shows "2 powi binade x \<le> dbl x" and "dbl x \<le> 2 powi (binade x + 1)"
proof -
  define e where "e = binade x"
  define u :: rat where "u = 2 powi (e - 52)"
  have u: "0 < u" by (simp add: u_def)
  have e: "2 powi e = u * of_int (2 ^ 52)" "2 powi (e + 1) = u * of_int (2 ^ 53)"
    by (simp_all add: u_def power_int_diff power_int_add)
  have lo: "of_int (2 ^ 52) \<le> x / u"
    using binade_bounds(1) [OF assms] u unfolding e_def [symmetric] e
    by (simp add: pos_le_divide_eq mult.commute)
  have hi: "x / u \<le> of_int (2 ^ 53)"
    using binade_bounds(2) [OF assms] u unfolding e_def [symmetric] e
    by (simp add: pos_divide_le_eq mult.commute)
  have d: "dbl x = of_int (round_half_even (x / u)) * u"
    using dbl_pos [OF assms] by (simp add: u_def e_def)
  have "(of_int (2 ^ 52) :: rat) \<le> of_int (round_half_even (x / u))"
    using round_half_even_ge [OF lo] by (simp only: of_int_le_iff)
  then have "of_int (2 ^ 52) * u \<le> of_int (round_half_even (x / u)) * u"
    using u by (intro mult_right_mono) auto
  then show "2 powi binade x \<le> dbl x"
    unfolding d e_def [symmetric] e by (simp add: mult.commute)
  have "(of_int (round_half_even (x / u)) :: rat) \<le> of_int (2 ^ 53)"
    using round_half_even_le [OF hi] by (simp only: of_int_le_iff)
  then have "of_int (round_half_even (x / u)) * u \<le> of_int (2 ^ 53) * u"
    using u by (intro mult_right_mono) auto
  then show "dbl x \<le> 2 powi (binade x + 1)"
    unfolding d e_def [symmetric] e by (simp add: mult.commute)
qed

lemma dbl_le_half:
  assumes "x \<le> 1 / 2"
  shows "dbl x \<le> 1 / 2"
proof (cases "0 < x")
  case False
  then consider "x = 0" | "x < 0" by linarith
  then show ?thesis
  proof cases
    case 1
    then show ?thesis by (simp add: dbl_def)
  next
    case 2
    have "0 \<le> round_half_even (\<bar>x\<bar> / 2 powi (binade \<bar>x\<bar> - 52))"
      by (rule round_half_even_ge) simp
    then have "0 \<le> (of_int (round_half_even (\<bar>x\<bar> / 2 powi (binade \<bar>x\<bar> - 52))) :: rat)
                 * 2 powi (binade \<bar>x\<bar> - 52)"
      by simp
    then have "dbl x \<le> 0" using 2 by (simp add: dbl_def Let_def)
    then show ?thesis by simp
  qed
next
  case True
  show ?thesis
  proof (cases "x = 1 / 2")
    case True
    have "dbl (1 / 2) = 1 / 2" by code_simp
    then have "dbl x = 1 / 2" unfolding True .
    then show ?thesis by simp
  next
    case False
    with assms have "x < 2 powi (- 1)" by simp
    with binade_bounds(1) [OF True] have "(2::rat) powi binade x < 2 powi (- 1)" by simp
    then have "binade x < - 1" by (rule pow2_less_cancel)
    then have "binade x + 1 \<le> - 1" by simp
    then have "(2::rat) powi (binade x + 1) \<le> 2 powi (- 1)"
      by (intro power_int_increasing) auto
    with dbl_bounds(2) [OF True] show ?thesis by simp
  qed
qed

lemma dbl_gt_half:
  assumes "1 / 2 + 1 / 2 ^ 54 < x"
  shows "1 / 2 < dbl x"
proof -
  have pos: "0 < x" using assms by (simp add: add_pos_pos less_trans [rotated])
  show ?thesis
  proof (cases "1 \<le> x")
    case True
    with binade_bounds(2) [OF pos] have "(2::rat) powi 0 < 2 powi (binade x + 1)" by simp
    then have "0 < binade x + 1" by (rule pow2_less_cancel)
    then have "0 \<le> binade x" by simp
    then have "(2::rat) powi 0 \<le> 2 powi binade x" by (intro power_int_increasing) auto
    with dbl_bounds(1) [OF pos] show ?thesis by simp
  next
    case False
    then have "x < 2 powi 0" by simp
    with binade_bounds(1) [OF pos] have "(2::rat) powi binade x < 2 powi 0" by simp
    then have 1: "binade x < 0" by (rule pow2_less_cancel)
    have "(2::rat) powi (- 1) < x" using assms by (simp add: less_trans [rotated])
    with binade_bounds(2) [OF pos] have "(2::rat) powi (- 1) < 2 powi (binade x + 1)" by simp
    then have "- 1 < binade x + 1" by (rule pow2_less_cancel)
    with 1 have e: "binade x = - 1" by simp
    have u: "(2::rat) powi (binade x - 52) = 1 / 2 ^ 53"
      unfolding e by (simp add: power_int_minus_divide)
    have d: "dbl x = of_int (round_half_even (x * 2 ^ 53)) / 2 ^ 53"
      using dbl_pos [OF pos] unfolding u by simp
    have "(1 / 2 + 1 / 2 ^ 54) * 2 ^ 53 < x * 2 ^ 53"
      using assms by (intro mult_strict_right_mono) auto
    then have "of_int (2 ^ 52) + 1 / 2 < x * 2 ^ 53" by simp
    then have "2 ^ 52 + 1 \<le> round_half_even (x * 2 ^ 53)" by (rule round_half_even_gt)
    then have "(of_int (2 ^ 52 + 1) :: rat) \<le> of_int (round_half_even (x * 2 ^ 53))"
      by (simp only: of_int_le_iff)
    then have "(of_int (2 ^ 52 + 1) :: rat) / 2 ^ 53 \<le> dbl x"
      unfolding d by (intro divide_right_mono) auto
    then show ?thesis by simp
  qed
qed

lemma py_truediv_gt_half:
  assumes "0 < t" "t < 2 ^ 53"
  shows "1 / 2 < py_truediv p t \<longleftrightarrow> t < 2 * p"
proof
  assume "1 / 2 < py_truediv p t"
  then have "\<not> (of_nat p / of_nat t :: rat) \<le> 1 / 2"
    using dbl_le_half [of "of_nat p / of_nat t"] by (auto simp: py_truediv_def)
  then have "(of_nat t :: rat) < of_nat (2 * p)"
    using assms by (simp add: field_simps)
  then show "t < 2 * p" by (simp only: of_nat_less_iff)
next
  assume "t < 2 * p"
  then have "t + 1 \<le> 2 * p" by simp
  then have "(of_nat (t + 1) :: rat) \<le> of_nat (2 * p)" by (simp only: of_nat_le_iff)
  then have "(of_nat t + 1 :: rat) / 2 \<le> of_nat p" by simp
  then have "((of_nat t + 1 :: rat) / 2) / of_nat t \<le> of_nat p / of_nat t"
    by (intro divide_right_mono) auto
  then have g: "(of_nat t + 1 :: rat) / (2 * of_nat t) \<le> of_nat p / of_nat t"
    by simp
  have "(of_nat t :: rat) < of_nat (2 ^ 53)" using assms by (simp only: of_nat_less_iff)
  then have "(of_nat t :: rat) < 2 ^ 53" by simp
  then have "1 / 2 ^ 53 < 1 / (of_nat t :: rat)"
    using assms by (intro divide_strict_left_mono) auto
  then have h: "1 / 2 + 1 / 2 ^ 54 < (of_nat t + 1 :: rat) / (2 * of_nat t)"
    using assms by (simp add: field_simps)
  from h g have "1 / 2 + 1 / 2 ^ 54 < (of_nat p / of_nat t :: rat)"
    by (rule less_le_trans)
  then show "1 / 2 < py_truediv p t"
    unfolding py_truediv_def by (rule dbl_gt_half)
qed


section \<open>Aspect verdicts: the claims\<close>

lemma format_aspect_result_fields:
  assumes "0 < positive t + negative t + neutral t"
  shows "v_sentiment (format_aspect_result aspect t)
         = (if 1 / 2 < py_truediv (positive t) (positive t + negative t + neutral t)
              then Positive
            else if 1 / 2 < py_truediv (negative t) (positive t + negative t + neutral t)
              then Negative
            else Neutral)"
    and "v_reason (format_aspect_result aspect t)
         = generate_aspect_reason aspect (v_sentiment (format_aspect_result aspect t)) t"
    and "v_count (format_aspect_result aspect t)
         = Some (positive t + negative t + neutral t)"
    and "v_distribution (format_aspect_result aspect t)
         = Some \<lparr>d_positive = positive t, d_negative = negative t, d_neutral = neutral t\<rparr>"
  using assms by (auto simp: format_aspect_result_def Let_def)

lemma generate_aspect_reason_nonempty: "generate_aspect_reason aspect s t \<noteq> []"
  by (cases s) (simp_all add: generate_aspect_reason_def Let_def)


lemma set_dict_set:
  "(k, v) \<in> set (dict_set xs k' v') \<Longrightarrow> (k, v) \<in> set xs \<or> (k = k' \<and> v = v')"
  by (induction xs) (auto split: if_splits)

text \<open>A verdict with a count: the count is the sum of the distribution and is at least 1,
  and the reason is not empty.\<close>

lemma format_aspect_result_counted:
  assumes "1 \<le> positive t + negative t + neutral t"
  shows "v_reason (format_aspect_result aspect t) \<noteq> []
         \<and> (\<exists>d. v_distribution (format_aspect_result aspect t) = Some d
                \<and> v_count (format_aspect_result aspect t)
                    = Some (d_positive d + d_negative d + d_neutral d)
                \<and> 1 \<le> d_positive d + d_negative d + d_neutral d)"
proof -
  have p: "0 < positive t + negative t + neutral t" using assms by arith
  show ?thesis
    using assms
    by (simp add: format_aspect_result_fields [OF p] generate_aspect_reason_nonempty)
qed

lemma final_aspects_counted:
  assumes "(k, v) \<in> set (foldl (\<lambda>final (aspect, data).
                     if positive data + negative data + neutral data \<ge> 1
                     then dict_set final (capitalize aspect) (format_aspect_result aspect data)
                     else final) acc ds)"
    and "\<forall>(k, v) \<in> set acc. P v"
    and "\<And>aspect data. 1 \<le> positive data + negative data + neutral data
            \<Longrightarrow> P (format_aspect_result aspect data)"
  shows "P v"
  using assms
proof (induction ds arbitrary: acc)
  case Nil
  then show ?case by auto
next
  case (Cons x ds)
  obtain aspect data where x: "x = (aspect, data)" by (cases x)
  show ?case
  proof (rule Cons.IH [OF _ _ Cons.prems(3)])
    show "(k, v) \<in> set (foldl (\<lambda>final (aspect, data).
                     if positive data + negative data + neutral data \<ge> 1
                     then dict_set final (capitalize aspect) (format_aspect_result aspect data)
                     else final)
              (if positive data + negative data + neutral data \<ge> 1
               then dict_set acc (capitalize aspect) (format_aspect_result aspect data)
               else acc) ds)"
      using Cons.prems(1) by (simp add: x)
    show "\<forall>(k, v) \<in> set (if positive data + negative data + neutral data \<ge> 1
               then dict_set acc (capitalize aspect) (format_aspect_result aspect data)
               else acc). P v"
      using Cons.prems(2) Cons.prems(3) [of data aspect]
      by (auto dest!: set_dict_set)
  qed
qed

lemma analyze_aspects_cases:
  "analyze_aspects L a reviews category = [(''General'', general_verdict)]
   \<or> (\<forall>(k, v) \<in> set (analyze_aspects L a reviews category).
         v_reason v \<noteq> []
         \<and> (\<exists>d. v_distribution v = Some d
                \<and> v_count v = Some (d_positive d + d_negative d + d_neutral d)
                \<and> 1 \<le> d_positive d + d_negative d + d_neutral d))"
proof -
  define final where "final =
    foldl (\<lambda>final (aspect, data).
             if positive data + negative data + neutral data \<ge> 1
             then dict_set final (capitalize aspect) (format_aspect_result aspect data)
             else final)
          [] (foldl (analyze_review L a (active_aspects a category)) [] reviews)"
  have r: "analyze_aspects L a reviews category
           = (case final of [] \<Rightarrow> dict_set final ''General'' general_verdict | _ # _ \<Rightarrow> final)"
    by (simp only: analyze_aspects_def final_def Let_def)
  show ?thesis
  proof (cases final)
    case Nil
    then show ?thesis by (simp add: r)
  next
    case (Cons x xs)
    then have e: "analyze_aspects L a reviews category = final" by (simp add: r)
    have "v_reason v \<noteq> []
         \<and> (\<exists>d. v_distribution v = Some d
                \<and> v_count v = Some (d_positive d + d_negative d + d_neutral d)
                \<and> 1 \<le> d_positive d + d_negative d + d_neutral d)"
      if "(k, v) \<in> set final" for k v
      using that unfolding final_def
      by (rule final_aspects_counted) (simp, rule format_aspect_result_counted)
    then show ?thesis unfolding e by auto
  qed
qed

text \<open>
  Claim C4, as the source has it. Every entry of the aspects map of an analysis result has
  a non-empty reason. Every entry that the verdict formatter built has a distribution and
  a count, the count is the sum of the three numbers of the distribution, and it is at
  least 1. The entry \<^verbatim>\<open>General\<close> that is synthesized when no aspect is detected is then
  the only entry; it is neutral and has neither count nor distribution.
\<close>

theorem aspects_counted_or_general:
  assumes "(k, v) \<in> set (res_aspects (analyze_reviews L a p reviews))"
  shows "v_reason v \<noteq> []
         \<and> ((\<exists>d. v_distribution v = Some d
                 \<and> v_count v = Some (d_positive d + d_negative d + d_neutral d)
                 \<and> 1 \<le> d_positive d + d_negative d + d_neutral d)
            \<or> (res_aspects (analyze_reviews L a p reviews) = [(''General'', general_verdict)]
               \<and> v_sentiment v = Neutral
               \<and> v_reason v = ''No specific aspects identified in reviews''
               \<and> v_count v = None \<and> v_distribution v = None))"
proof (cases reviews)
  case Nil
  with assms show ?thesis by (simp add: analyze_reviews_def empty_analysis_def)
next
  case (Cons r rs)
  then have ne: "reviews \<noteq> []" by simp
  define asp where
    "asp = analyze_aspects L a (clean_reviews reviews) (Some (detect_product_category p))"
  have e: "res_aspects (analyze_reviews L a p reviews) = asp"
    unfolding asp_def by (rule analyze_reviews_nonempty(2) [OF ne])
  from analyze_aspects_cases [of L a "clean_reviews reviews" "Some (detect_product_category p)"]
  show ?thesis
  proof
    assume g: "analyze_aspects L a (clean_reviews reviews) (Some (detect_product_category p))
               = [(''General'', general_verdict)]"
    with assms e asp_def have "v = general_verdict" by simp
    with g e asp_def show ?thesis by (simp add: general_verdict_def)
  next
    assume "\<forall>(k, v) \<in> set (analyze_aspects L a (clean_reviews reviews)
                               (Some (detect_product_category p))).
         v_reason v \<noteq> []
         \<and> (\<exists>d. v_distribution v = Some d
                \<and> v_count v = Some (d_positive d + d_negative d + d_neutral d)
                \<and> 1 \<le> d_positive d + d_negative d + d_neutral d)"
    with assms e asp_def show ?thesis by auto
  qed
qed

theorem aspects_counted_or_general_witness:
  "res_aspects (analyze_reviews demo_libs new_analyzer ''Unknown Gadget''
                  [Plain (PyStr ''good price''), Plain (PyStr ''bad price'')])
     = [(''Price'',
         \<lparr>v_sentiment = Neutral, v_reason = ''Mixed opinions on price across 2 mentions'',
          v_count = Some 2,
          v_distribution = Some \<lparr>d_positive = 1, d_negative = 1, d_neutral = 0\<rparr>\<rparr>)]
   \<and> v_reason \<lparr>v_sentiment = Neutral,
               v_reason = ''Mixed opinions on price across 2 mentions'',
               v_count = Some 2,
               v_distribution = Some \<lparr>d_positive = 1, d_negative = 1, d_neutral = 0\<rparr>\<rparr> \<noteq> []"
proof -
  have e: "res_aspects (analyze_reviews demo_libs new_analyzer ''Unknown Gadget''
                  [Plain (PyStr ''good price''), Plain (PyStr ''bad price'')])
     = [(''Price'',
         \<lparr>v_sentiment = Neutral, v_reason = ''Mixed opinions on price across 2 mentions'',
          v_count = Some 2,
          v_distribution = Some \<lparr>d_positive = 1, d_negative = 1, d_neutral = 0\<rparr>\<rparr>)]"
    by code_simp
  have m: "(''Price'',
         \<lparr>v_sentiment = Neutral, v_reason = ''Mixed opinions on price across 2 mentions'',
          v_count = Some 2,
          v_distribution = Some \<lparr>d_positive = 1, d_negative = 1, d_neutral = 0\<rparr>\<rparr>)
        \<in> set (res_aspects (analyze_reviews demo_libs new_analyzer ''Unknown Gadget''
                  [Plain (PyStr ''good price''), Plain (PyStr ''bad price'')]))"
    unfolding e by simp
  show ?thesis
    using aspects_counted_or_general [OF m] e by simp
qed

text \<open>
  Claim C4 as stated, with a count of at least 1 that equals the sum of the distribution
  also for the synthesized \<^verbatim>\<open>General\<close> aspect, fails: that entry has the keys \<^verbatim>\<open>sentiment\<close>
  and \<^verbatim>\<open>reason\<close> only.
\<close>

theorem general_aspect_counterexample:
  "res_aspects (analyze_reviews demo_libs new_analyzer ''Unknown Gadget''
                  [Plain (PyStr ''hello'')])
     = [(''General'',
         \<lparr>v_sentiment = Neutral, v_reason = ''No specific aspects identified in reviews'',
          v_count = None, v_distribution = None\<rparr>)]"
  by code_simp


text \<open>
  Claim C5. For every tally with \<open>total = positive + negative + neutral > 0\<close>, the
  sentiment of the formatted verdict is positive if \<^verbatim>\<open>positive / total > 0.5\<close>, else negative
  if \<^verbatim>\<open>negative / total > 0.5\<close>, else neutral, and the reason is the template of that
  sentiment, filled with the aspect name and the counts. The quotients are Python's, that
  is, doubles; for a total below \<open>2 ^ 53\<close> the comparison of the double with 0.5 is the
  comparison of the exact ratio, \<open>2 * positive > total\<close>. The witness is the tally
  \<^verbatim>\<open>{positive: 1, negative: 1, neutral: 0}\<close>, whose ratio is exactly 0.5: its verdict is
  neutral.
\<close>

theorem format_aspect_result_verdict:
  assumes "0 < positive t + negative t + neutral t"
  shows
    "v_sentiment (format_aspect_result aspect t)
       = (if 1 / 2 < py_truediv (positive t) (positive t + negative t + neutral t)
            then Positive
          else if 1 / 2 < py_truediv (negative t) (positive t + negative t + neutral t)
            then Negative
          else Neutral)
     \<and> v_reason (format_aspect_result aspect t)
       = (case v_sentiment (format_aspect_result aspect t) of
            Positive \<Rightarrow> ''Users praised '' @ aspect @ '' in '' @ str_nat (positive t) @ ''/''
                          @ str_nat (positive t + negative t + neutral t) @ '' mentions''
          | Negative \<Rightarrow> ''Users complained about '' @ aspect @ '' in ''
                          @ str_nat (negative t) @ ''/''
                          @ str_nat (positive t + negative t + neutral t) @ '' mentions''
          | Neutral \<Rightarrow> ''Mixed opinions on '' @ aspect @ '' across ''
                          @ str_nat (positive t + negative t + neutral t) @ '' mentions'')
     \<and> (positive t + negative t + neutral t < 2 ^ 53 \<longrightarrow>
          v_sentiment (format_aspect_result aspect t)
            = (if positive t + negative t + neutral t < 2 * positive t then Positive
               else if positive t + negative t + neutral t < 2 * negative t then Negative
               else Neutral))"
proof (intro conjI impI)
  show "v_sentiment (format_aspect_result aspect t)
       = (if 1 / 2 < py_truediv (positive t) (positive t + negative t + neutral t)
            then Positive
          else if 1 / 2 < py_truediv (negative t) (positive t + negative t + neutral t)
            then Negative
          else Neutral)"
    by (rule format_aspect_result_fields(1) [OF assms])
  show "v_reason (format_aspect_result aspect t)
       = (case v_sentiment (format_aspect_result aspect t) of
            Positive \<Rightarrow> ''Users praised '' @ aspect @ '' in '' @ str_nat (positive t) @ ''/''
                          @ str_nat (positive t + negative t + neutral t) @ '' mentions''
          | Negative \<Rightarrow> ''Users complained about '' @ aspect @ '' in ''
                          @ str_nat (negative t) @ ''/''
                          @ str_nat (positive t + negative t + neutral t) @ '' mentions''
          | Neutral \<Rightarrow> ''Mixed opinions on '' @ aspect @ '' across ''
                          @ str_nat (positive t + negative t + neutral t) @ '' mentions'')"
    unfolding format_aspect_result_fields(2) [OF assms]
    by (simp add: generate_aspect_reason_def Let_def)
next
  assume b: "positive t + negative t + neutral t < 2 ^ 53"
  show "v_sentiment (format_aspect_result aspect t)
            = (if positive t + negative t + neutral t < 2 * positive t then Positive
               else if positive t + negative t + neutral t < 2 * negative t then Negative
               else Neutral)"
    unfolding format_aspect_result_fields(1) [OF assms]
      py_truediv_gt_half [OF assms b] ..
qed

theorem format_aspect_result_verdict_witness:
  "v_sentiment (format_aspect_result ''battery''
      \<lparr>positive = 1, negative = 1, neutral = 0, mentions = []\<rparr>) = Neutral
   \<and> v_reason (format_aspect_result ''battery''
      \<lparr>positive = 1, negative = 1, neutral = 0, mentions = []\<rparr>)
     = ''Mixed opinions on battery across 2 mentions''"
proof -
  have h: "0 < positive \<lparr>positive = 1, negative = 1, neutral = 0, mentions = []\<rparr>
             + negative \<lparr>positive = 1, negative = 1, neutral = 0, mentions = []\<rparr>
             + neutral \<lparr>positive = 1, negative = 1, neutral = 0, mentions = []\<rparr>"
    by simp
  have r: "py_truediv 1 2 = 1 / 2"
    by code_simp
  have s: "str_nat 2 = ''2''"
    by code_simp
  show ?thesis
    using format_aspect_result_verdict [OF h, of "''battery''"] r s
    by (simp add: numeral_2_eq_2 [symmetric])
qed


section \<open>Category detection: the claims\<close>

lemma tv_in_smart_tv: "contains ''tv'' ''smart tv''"
  by code_simp

lemma smart_tv_redundant: "contains ''smart tv'' n \<Longrightarrow> contains ''tv'' n"
  using contains_trans [OF tv_in_smart_tv] .

lemma brand_loop_find:
  "brand_loop brands n = map_option snd (find (\<lambda>(brand, category). contains (lower brand) n) brands)"
  by (induction brands) auto

text \<open>
  Claim C6, as the source has it. For every product name, \<^verbatim>\<open>detect_product_category\<close>
  returns the category of the first brand of the brand table whose name occurs
  case-insensitively in the product name; if no brand occurs, the category of the first
  keyword list, in the order mobile, laptop, television, audio, footwear, fashion,
  home_appliance, of which a keyword occurs, where the keywords are those that the
  specification enumerates and, for mobile, also \<^verbatim>\<open>5g\<close>; otherwise \<^verbatim>\<open>general\<close>. The empty
  product name gives \<^verbatim>\<open>general\<close>. The function is total: it has a value, never an error,
  for every name. (The source's further television keyword \<^verbatim>\<open>smart tv\<close> changes
  nothing, since \<^verbatim>\<open>tv\<close> occurs wherever it does.)
\<close>

theorem detect_product_category_refines:
  "detect_product_category product_name
     = spec_detect_category BRAND_TO_CATEGORY KEYWORDS_WITH_5G product_name
   \<and> detect_product_category [] = ''general''"
proof -
  define n where "n = lower product_name"
  have kw: "list_ex (\<lambda>k. contains (lower k) n) ks = any_in ks n"
    if "map lower ks = ks" for ks
  proof -
    have "list_ex (\<lambda>k. contains (lower k) n) ks = list_ex (\<lambda>k. contains k n) (map lower ks)"
      by (simp add: list_ex_iff)
    then show ?thesis using that by (simp add: any_in_def)
  qed
  have k1: "list_ex (\<lambda>k. contains (lower k) n) [''phone'', ''mobile'', ''smartphone'', ''5g'']
            = any_in [''phone'', ''mobile'', ''smartphone'', ''5g''] n"
    by (rule kw) code_simp
  have k2: "list_ex (\<lambda>k. contains (lower k) n) [''laptop'', ''notebook'', ''macbook'', ''chromebook'']
            = any_in [''laptop'', ''notebook'', ''macbook'', ''chromebook''] n"
    by (rule kw) code_simp
  have k3: "list_ex (\<lambda>k. contains (lower k) n) [''tv'', ''television'', ''qled'']
            = any_in [''tv'', ''television'', ''smart tv'', ''qled''] n"
  proof -
    have "list_ex (\<lambda>k. contains (lower k) n) [''tv'', ''television'', ''qled'']
          = any_in [''tv'', ''television'', ''qled''] n"
      by (rule kw) code_simp
    also have "\<dots> = any_in [''tv'', ''television'', ''smart tv'', ''qled''] n"
      using smart_tv_redundant [of n] by (auto simp: any_in_def)
    finally show ?thesis .
  qed
  have k4: "list_ex (\<lambda>k. contains (lower k) n)
              [''earphone'', ''headphone'', ''earbud'', ''speaker'', ''soundbar'']
            = any_in [''earphone'', ''headphone'', ''earbud'', ''speaker'', ''soundbar''] n"
    by (rule kw) code_simp
  have k5: "list_ex (\<lambda>k. contains (lower k) n) [''shoe'', ''slipper'', ''sandal'', ''boot'', ''sneaker'']
            = any_in [''shoe'', ''slipper'', ''sandal'', ''boot'', ''sneaker''] n"
    by (rule kw) code_simp
  have k6: "list_ex (\<lambda>k. contains (lower k) n)
              [''shirt'', ''pant'', ''jean'', ''dress'', ''tshirt'', ''kurti'']
            = any_in [''shirt'', ''pant'', ''jean'', ''dress'', ''tshirt'', ''kurti''] n"
    by (rule kw) code_simp
  have k7: "list_ex (\<lambda>k. contains (lower k) n)
              [''refrigerator'', ''washing'', ''microwave'', ''ac'', ''cooler'']
            = any_in [''refrigerator'', ''washing'', ''microwave'', ''ac'', ''cooler''] n"
    by (rule kw) code_simp
  have kwchain:
    "(case find (\<lambda>(category, ks). list_ex (\<lambda>k. contains (lower k) n) ks) KEYWORDS_WITH_5G of
        Some (category, ks) \<Rightarrow> category
      | None \<Rightarrow> ''general'')
     = (if any_in [''phone'', ''mobile'', ''smartphone'', ''5g''] n then ''mobile''
        else if any_in [''laptop'', ''notebook'', ''macbook'', ''chromebook''] n then ''laptop''
        else if any_in [''tv'', ''television'', ''smart tv'', ''qled''] n then ''television''
        else if any_in [''earphone'', ''headphone'', ''earbud'', ''speaker'', ''soundbar''] n
          then ''audio''
        else if any_in [''shoe'', ''slipper'', ''sandal'', ''boot'', ''sneaker''] n
          then ''footwear''
        else if any_in [''shirt'', ''pant'', ''jean'', ''dress'', ''tshirt'', ''kurti''] n
          then ''fashion''
        else if any_in [''refrigerator'', ''washing'', ''microwave'', ''ac'', ''cooler''] n
          then ''home_appliance''
        else ''general'')"
    unfolding KEYWORDS_WITH_5G_def SPEC_KEYWORDS_def list.sel find.simps case_prod_conv
      k1 k2 k3 k4 k5 k6 k7
    by simp
  have refines: "detect_product_category product_name
     = spec_detect_category BRAND_TO_CATEGORY KEYWORDS_WITH_5G product_name"
    unfolding detect_product_category_def spec_detect_category_def Let_def brand_loop_find
      n_def [symmetric] kwchain
    by (cases "find (\<lambda>(brand, category). contains (lower brand) n) BRAND_TO_CATEGORY") auto
  have empty: "detect_product_category [] = ''general''"
    by code_simp
  from refines empty show ?thesis ..
qed


theorem detect_product_category_refines_witness:
  "spec_detect_category BRAND_TO_CATEGORY KEYWORDS_WITH_5G ''Samsung Smart TV'' = ''mobile''"
proof -
  have "detect_product_category ''Samsung Smart TV'' = ''mobile''"
    by code_simp
  then show ?thesis
    using detect_product_category_refines [of "''Samsung Smart TV''"] by simp
qed

text \<open>
  Claim C6 as the specification states it, with exactly the keywords
  phone/mobile/smartphone for mobile, fails: a name with no brand and no keyword of the
  specification, but with \<^verbatim>\<open>5g\<close> in it, is \<^verbatim>\<open>mobile\<close> for the source and \<^verbatim>\<open>general\<close> for
  the specification's algorithm.
\<close>

theorem detect_5g_counterexample:
  "detect_product_category ''Poco X5 5G'' = ''mobile''
   \<and> spec_detect_category BRAND_TO_CATEGORY SPEC_KEYWORDS ''Poco X5 5G'' = ''general''"
  by code_simp


section \<open>Themes: the claims\<close>

lemma count_sentiments_foldl:
  "foldl (\<lambda>sentiments r. incr_count (f r) sentiments) d ms
   = \<lparr>d_positive = d_positive d + length (filter (\<lambda>m. f m = Positive) ms),
      d_negative = d_negative d + length (filter (\<lambda>m. f m = Negative) ms),
      d_neutral = d_neutral d + length (filter (\<lambda>m. f m = Neutral) ms)\<rparr>"
proof (induction ms arbitrary: d)
  case Nil
  then show ?case by simp
next
  case (Cons m ms)
  show ?case by (cases "f m") (simp_all add: Cons.IH)
qed

lemma count_sentiments_eq:
  "count_sentiments L a ms
   = \<lparr>d_positive = length (filter (\<lambda>m. get_sentence_sentiment L a m = Positive) ms),
      d_negative = length (filter (\<lambda>m. get_sentence_sentiment L a m = Negative) ms),
      d_neutral = length (filter (\<lambda>m. get_sentence_sentiment L a m = Neutral) ms)\<rparr>"
  unfolding count_sentiments_def count_sentiments_foldl by (simp add: zero_counts_def)

lemma three_way_length:
  "length (filter (\<lambda>m. f m = Positive) ms) + length (filter (\<lambda>m. f m = Negative) ms)
   + length (filter (\<lambda>m. f m = Neutral) ms) = length ms"
proof (induction ms)
  case Nil
  then show ?case by simp
next
  case (Cons m ms)
  then show ?case by (cases "f m") simp_all
qed

lemma count_sentiments_total:
  "d_positive (count_sentiments L a ms) + d_negative (count_sentiments L a ms)
   + d_neutral (count_sentiments L a ms) = length ms"
  by (simp add: count_sentiments_eq three_way_length)

lemma foldl_snoc_if:
  "foldl (\<lambda>acc x. if c x then acc @ [g x] else acc) acc xs = acc @ map g (filter c xs)"
  by (induction xs arbitrary: acc) simp_all

lemma themes_list:
  "foldl (\<lambda>themes (name, keywords).
            let ms = theme_mentions keywords reviews in
            if length ms \<ge> 1 then
              (let s = analyze_theme_sentiment L a ms in
               themes @ [\<lparr>t_theme = name, t_sentiment = ts_sentiment s,
                          t_reason = ts_reason s, t_mention_count = length ms\<rparr>])
            else themes)
         [] ps
   = map (\<lambda>(name, keywords).
            \<lparr>t_theme = name,
             t_sentiment = ts_sentiment (analyze_theme_sentiment L a
                                           (theme_mentions keywords reviews)),
             t_reason = ts_reason (analyze_theme_sentiment L a
                                     (theme_mentions keywords reviews)),
             t_mention_count = length (theme_mentions keywords reviews)\<rparr>)
         (filter (\<lambda>(name, keywords). 1 \<le> length (theme_mentions keywords reviews)) ps)"
proof -
  have "(\<lambda>themes (name, keywords).
            let ms = theme_mentions keywords reviews in
            if length ms \<ge> 1 then
              (let s = analyze_theme_sentiment L a ms in
               themes @ [\<lparr>t_theme = name, t_sentiment = ts_sentiment s,
                          t_reason = ts_reason s, t_mention_count = length ms\<rparr>])
            else themes)
        = (\<lambda>acc x. if (\<lambda>(name, keywords). 1 \<le> length (theme_mentions keywords reviews)) x
                    then acc @ [(\<lambda>(name, keywords).
                      \<lparr>t_theme = name,
                       t_sentiment = ts_sentiment (analyze_theme_sentiment L a
                                                     (theme_mentions keywords reviews)),
                       t_reason = ts_reason (analyze_theme_sentiment L a
                                               (theme_mentions keywords reviews)),
                       t_mention_count = length (theme_mentions keywords reviews)\<rparr>) x]
                    else acc)"
    by (auto simp: fun_eq_iff Let_def)
  then show ?thesis by (simp only: foldl_snoc_if append_Nil)
qed

lemma extract_key_themes_eq:
  "extract_key_themes L a reviews
   = take 5 (sorted_desc t_mention_count
       (map (\<lambda>(name, keywords).
            \<lparr>t_theme = name,
             t_sentiment = ts_sentiment (analyze_theme_sentiment L a
                                           (theme_mentions keywords reviews)),
             t_reason = ts_reason (analyze_theme_sentiment L a
                                     (theme_mentions keywords reviews)),
             t_mention_count = length (theme_mentions keywords reviews)\<rparr>)
         (filter (\<lambda>(name, keywords). 1 \<le> length (theme_mentions keywords reviews))
                 theme_patterns)))"
  apply (subst extract_key_themes_def)
  apply (subst themes_list)
  apply (simp only: Let_def)
  done

lemma extract_key_themes_set:
  "set (extract_key_themes L a reviews)
   = (\<lambda>(name, keywords).
            \<lparr>t_theme = name,
             t_sentiment = ts_sentiment (analyze_theme_sentiment L a
                                           (theme_mentions keywords reviews)),
             t_reason = ts_reason (analyze_theme_sentiment L a
                                     (theme_mentions keywords reviews)),
             t_mention_count = length (theme_mentions keywords reviews)\<rparr>)
     ` {x \<in> set theme_patterns.
          case x of (name, keywords) \<Rightarrow> 1 \<le> length (theme_mentions keywords reviews)}"
proof -
  have "length (filter (\<lambda>(name, keywords). 1 \<le> length (theme_mentions keywords reviews))
                       theme_patterns) \<le> length theme_patterns"
    by (rule length_filter_le)
  also have "length theme_patterns = 5"
    by (simp add: theme_patterns_def)
  finally have "length (filter (\<lambda>(name, keywords). 1 \<le> length (theme_mentions keywords reviews))
                       theme_patterns) \<le> 5" .
  then show ?thesis
    unfolding extract_key_themes_eq sorted_desc_def by simp
qed

text \<open>
  Claim C7, as the source has it. The sentiment of a theme is positive when more of the
  mentioning reviews are classified positive than negative, negative when more are
  classified negative than positive, and neutral when the two counts are equal; reviews
  classified neutral have no vote. The reason is the template of that sentiment, filled
  with the winning count over the number of mentioning reviews (for neutral, with that
  number alone). The themes of the result are exactly these: every theme with at least
  one mentioning review is reported, with the sentiment and the reason so computed from
  the reviews that mention it and with their number as mention count, and nothing else
  is reported.
\<close>

theorem theme_sentiment_vote:
  "analyze_theme_sentiment L a ms
     = (if length (filter (\<lambda>m. get_sentence_sentiment L a m = Positive) ms)
            > length (filter (\<lambda>m. get_sentence_sentiment L a m = Negative) ms)
        then \<lparr>ts_sentiment = Positive,
              ts_reason = ''Positive feedback in ''
                @ str_nat (length (filter (\<lambda>m. get_sentence_sentiment L a m = Positive) ms))
                @ ''/'' @ str_nat (length ms) @ '' reviews''\<rparr>
        else if length (filter (\<lambda>m. get_sentence_sentiment L a m = Negative) ms)
            > length (filter (\<lambda>m. get_sentence_sentiment L a m = Positive) ms)
        then \<lparr>ts_sentiment = Negative,
              ts_reason = ''Concerns raised in ''
                @ str_nat (length (filter (\<lambda>m. get_sentence_sentiment L a m = Negative) ms))
                @ ''/'' @ str_nat (length ms) @ '' reviews''\<rparr>
        else \<lparr>ts_sentiment = Neutral,
              ts_reason = ''Mixed opinions across '' @ str_nat (length ms) @ '' reviews''\<rparr>)
   \<and> (t \<in> set (extract_key_themes L a reviews) \<longleftrightarrow>
        (\<exists>name keywords. (name, keywords) \<in> set theme_patterns
           \<and> 1 \<le> length (theme_mentions keywords reviews)
           \<and> t = \<lparr>t_theme = name,
                   t_sentiment = ts_sentiment (analyze_theme_sentiment L a
                                                 (theme_mentions keywords reviews)),
                   t_reason = ts_reason (analyze_theme_sentiment L a
                                           (theme_mentions keywords reviews)),
                   t_mention_count = length (theme_mentions keywords reviews)\<rparr>))"
proof (intro conjI)
  have tot: "d_positive (count_sentiments L a ms) + d_negative (count_sentiments L a ms)
             + d_neutral (count_sentiments L a ms) = length ms"
    by (rule count_sentiments_total)
  show "analyze_theme_sentiment L a ms
     = (if length (filter (\<lambda>m. get_sentence_sentiment L a m = Positive) ms)
            > length (filter (\<lambda>m. get_sentence_sentiment L a m = Negative) ms)
        then \<lparr>ts_sentiment = Positive,
              ts_reason = ''Positive feedback in ''
                @ str_nat (length (filter (\<lambda>m. get_sentence_sentiment L a m = Positive) ms))
                @ ''/'' @ str_nat (length ms) @ '' reviews''\<rparr>
        else if length (filter (\<lambda>m. get_sentence_sentiment L a m = Negative) ms)
            > length (filter (\<lambda>m. get_sentence_sentiment L a m = Positive) ms)
        then \<lparr>ts_sentiment = Negative,
              ts_reason = ''Concerns raised in ''
                @ str_nat (length (filter (\<lambda>m. get_sentence_sentiment L a m = Negative) ms))
                @ ''/'' @ str_nat (length ms) @ '' reviews''\<rparr>
        else \<lparr>ts_sentiment = Neutral,
              ts_reason = ''Mixed opinions across '' @ str_nat (length ms) @ '' reviews''\<rparr>)"
    unfolding analyze_theme_sentiment_def Let_def tot
    by (simp add: count_sentiments_eq)
  show "t \<in> set (extract_key_themes L a reviews) \<longleftrightarrow>
        (\<exists>name keywords. (name, keywords) \<in> set theme_patterns
           \<and> 1 \<le> length (theme_mentions keywords reviews)
           \<and> t = \<lparr>t_theme = name,
                   t_sentiment = ts_sentiment (analyze_theme_sentiment L a
                                                 (theme_mentions keywords reviews)),
                   t_reason = ts_reason (analyze_theme_sentiment L a
                                           (theme_mentions keywords reviews)),
                   t_mention_count = length (theme_mentions keywords reviews)\<rparr>)"
    unfolding extract_key_themes_set by auto
qed

theorem theme_sentiment_vote_witness:
  "\<lparr>t_theme = ''After Sales'', t_sentiment = Negative,
    t_reason = ''Concerns raised in 1/1 reviews'', t_mention_count = 1\<rparr>
     \<in> set (extract_key_themes demo_libs new_analyzer [''bad service''])
   \<and> analyze_theme_sentiment demo_libs new_analyzer [''bad service'']
     = \<lparr>ts_sentiment = Negative, ts_reason = ''Concerns raised in 1/1 reviews''\<rparr>"
proof -
  have pat: "(''After Sales'', [''service'', ''support'', ''warranty'', ''replacement'',
                               ''customer'']) \<in> set theme_patterns"
    by (simp add: theme_patterns_def)
  have ms: "theme_mentions [''service'', ''support'', ''warranty'', ''replacement'', ''customer'']
              [''bad service''] = [''bad service'']"
    by code_simp
  have p: "filter (\<lambda>m. get_sentence_sentiment demo_libs new_analyzer m = Positive)
             [''bad service''] = []"
    by code_simp
  have n: "filter (\<lambda>m. get_sentence_sentiment demo_libs new_analyzer m = Negative)
             [''bad service''] = [''bad service'']"
    by code_simp
  have s: "str_nat (Suc 0) = ''1''"
    by code_simp
  note inst = theme_sentiment_vote
    [of demo_libs new_analyzer "[''bad service'']"
        "\<lparr>t_theme = ''After Sales'', t_sentiment = Negative,
          t_reason = ''Concerns raised in 1/1 reviews'', t_mention_count = 1\<rparr>"
        "[''bad service'']"]
  have v: "analyze_theme_sentiment demo_libs new_analyzer [''bad service'']
     = \<lparr>ts_sentiment = Negative, ts_reason = ''Concerns raised in 1/1 reviews''\<rparr>"
    using inst [THEN conjunct1] unfolding p n by (simp add: s)
  have "\<exists>name keywords. (name, keywords) \<in> set theme_patterns
           \<and> 1 \<le> length (theme_mentions keywords [''bad service''])
           \<and> \<lparr>t_theme = ''After Sales'', t_sentiment = Negative,
               t_reason = ''Concerns raised in 1/1 reviews'', t_mention_count = 1\<rparr>
             = \<lparr>t_theme = name,
                   t_sentiment = ts_sentiment (analyze_theme_sentiment demo_libs new_analyzer
                                                 (theme_mentions keywords [''bad service''])),
                   t_reason = ts_reason (analyze_theme_sentiment demo_libs new_analyzer
                                           (theme_mentions keywords [''bad service''])),
                   t_mention_count = length (theme_mentions keywords [''bad service''])\<rparr>"
    using pat by (intro exI [of _ "''After Sales''"]
        exI [of _ "[''service'', ''support'', ''warranty'', ''replacement'', ''customer'']"])
      (simp add: ms v)
  then have "\<lparr>t_theme = ''After Sales'', t_sentiment = Negative,
    t_reason = ''Concerns raised in 1/1 reviews'', t_mention_count = 1\<rparr>
     \<in> set (extract_key_themes demo_libs new_analyzer [''bad service''])"
    using inst by blast
  with v show ?thesis by simp
qed

text \<open>
  Claim C7 as stated, a majority vote in which a theme with 1 positive, 0 negative and 4
  neutral mentions is neutral, fails: the source compares the positive with the negative
  count only, and reports such a theme as positive.
\<close>

theorem neutral_majority_counterexample:
  "count_sentiments demo_libs new_analyzer
     [''good value'', ''price'', ''the price'', ''its price'', ''price tag'']
     = \<lparr>d_positive = 1, d_negative = 0, d_neutral = 4\<rparr>
   \<and> majority_vote \<lparr>d_positive = 1, d_negative = 0, d_neutral = 4\<rparr> = Neutral
   \<and> res_key_themes (analyze_reviews demo_libs new_analyzer ''Unknown Gadget''
        [Plain (PyStr ''good value''), Plain (PyStr ''price''), Plain (PyStr ''the price''),
         Plain (PyStr ''its price''), Plain (PyStr ''price tag'')])
     = [\<lparr>t_theme = ''Value for Money'', t_sentiment = Positive,
         t_reason = ''Positive feedback in 1/5 reviews'', t_mention_count = 5\<rparr>]"
proof -
  have c: "clean_reviews
        [Plain (PyStr ''good value''), Plain (PyStr ''price''), Plain (PyStr ''the price''),
         Plain (PyStr ''its price''), Plain (PyStr ''price tag'')]
     = [''good value'', ''price'', ''the price'', ''its price'', ''price tag'']"
    by code_simp
  have e: "extract_key_themes demo_libs new_analyzer
        [''good value'', ''price'', ''the price'', ''its price'', ''price tag'']
     = [\<lparr>t_theme = ''Value for Money'', t_sentiment = Positive,
         t_reason = ''Positive feedback in 1/5 reviews'', t_mention_count = 5\<rparr>]"
    by code_simp
  have n: "count_sentiments demo_libs new_analyzer
     [''good value'', ''price'', ''the price'', ''its price'', ''price tag'']
     = \<lparr>d_positive = 1, d_negative = 0, d_neutral = 4\<rparr>"
    by code_simp
  have m: "majority_vote \<lparr>d_positive = 1, d_negative = 0, d_neutral = 4\<rparr> = Neutral"
    by code_simp
  have k: "res_key_themes (analyze_reviews demo_libs new_analyzer ''Unknown Gadget''
        [Plain (PyStr ''good value''), Plain (PyStr ''price''), Plain (PyStr ''the price''),
         Plain (PyStr ''its price''), Plain (PyStr ''price tag'')])
     = extract_key_themes demo_libs new_analyzer (clean_reviews
        [Plain (PyStr ''good value''), Plain (PyStr ''price''), Plain (PyStr ''the price''),
         Plain (PyStr ''its price''), Plain (PyStr ''price tag'')])"
    by (rule analyze_reviews_nonempty(3)) simp
  from n m k show ?thesis unfolding c e by (intro conjI)
qed


section \<open>Competitor recommendations: the claim\<close>

lemma map_enumerate:
  "map (\<lambda>(i, c). F i c) (enumerate 0 xs) = map (\<lambda>i. F i (xs ! i)) [0..<length xs]"
  by (rule nth_equalityI) (simp_all add: nth_enumerate_eq)

lemma generate_competitor_reason_template:
  assumes "i < 4"
  shows "generate_competitor_reason brand category weak i
         = REASON_TEMPLATES category ! i @ weakness_clause weak"
proof -
  from assms consider "i = 0" | "i = 1" | "i = 2" | "i = 3" by linarith
  then show ?thesis
    by cases
       (simp_all add: generate_competitor_reason_def REASON_TEMPLATES_def weakness_clause_def
          Let_def numeral_2_eq_2 numeral_3_eq_3)
qed

lemma build_competitor_recommendations_spec:
  "build_competitor_recommendations p category competitors aspects
   = spec_recommendations category competitors (map lower (names_with Negative aspects))"
proof -
  have len: "length (take 4 competitors) = min 4 (length competitors)"
    by (simp add: min.commute)
  have "map (\<lambda>i. \<lparr>r_name = take 4 competitors ! i @ '' ''
                        @ title (replace_char CHR ''_'' CHR '' '' category) @ '' Series'',
                  r_reason = generate_competitor_reason (take 4 competitors ! i) category
                               (map lower (names_with Negative aspects)) i,
                  r_category = category\<rparr>)
            [0..<min 4 (length competitors)]
        = map (\<lambda>i. \<lparr>r_name = competitors ! i @ '' ''
                        @ title (replace_char CHR ''_'' CHR '' '' category) @ '' Series'',
                  r_reason = REASON_TEMPLATES category ! i
                               @ weakness_clause (map lower (names_with Negative aspects)),
                  r_category = category\<rparr>)
            [0..<min 4 (length competitors)]"
    by (rule map_cong [OF refl]) (auto simp: generate_competitor_reason_template)
  then show ?thesis
    unfolding build_competitor_recommendations_def spec_recommendations_def Let_def
      map_enumerate len .
qed

lemma competitors_recommend_competitors:
  "ci_competitors (recommend_competitors p) = take 5 (candidates p)"
  by (simp add: recommend_competitors_def candidates_def Let_def split: option.splits)

lemma spec_recommendations_take:
  "spec_recommendations category (take 5 cands) weak = spec_recommendations category cands weak"
proof -
  have len: "min 4 (length (take 5 cands)) = min 4 (length cands)"
    by simp
  show ?thesis
    unfolding spec_recommendations_def len
    by (rule map_cong [OF refl]) auto
qed

text \<open>
  Claim C9. The recommendations built from a category, a competitor list and an aspects map
  are at most 4; the \<open>i\<close>-th is for the \<open>i\<close>-th competitor of the list and its reason is the
  \<open>i\<close>-th positional template followed by at most one clause, chosen in the order
  \<^verbatim>\<open>battery\<close>, \<^verbatim>\<open>camera\<close>, \<^verbatim>\<open>performance\<close> among the lower-cased names of the aspects of
  negative sentiment. In the result of an analysis of a non-empty review list, the
  competitor list is that of the detected category in table order, without the brand
  detected in the product name.
\<close>

theorem recommended_products_spec:
  "length (build_competitor_recommendations p category competitors aspects) \<le> 4
   \<and> build_competitor_recommendations p category competitors aspects
     = spec_recommendations category competitors (map lower (names_with Negative aspects))
   \<and> (reviews \<noteq> [] \<longrightarrow>
        res_recommended_products (analyze_reviews L a p reviews)
          = spec_recommendations (detect_product_category p) (candidates p)
              (map lower (names_with Negative (res_aspects (analyze_reviews L a p reviews)))))"
proof (intro conjI impI)
  show "length (build_competitor_recommendations p category competitors aspects) \<le> 4"
    by (simp add: build_competitor_recommendations_def Let_def)
  show "build_competitor_recommendations p category competitors aspects
     = spec_recommendations category competitors (map lower (names_with Negative aspects))"
    by (rule build_competitor_recommendations_spec)
next
  assume "reviews \<noteq> []"
  then obtain r rs where r: "reviews = r # rs" by (cases reviews) auto
  show "res_recommended_products (analyze_reviews L a p reviews)
          = spec_recommendations (detect_product_category p) (candidates p)
              (map lower (names_with Negative (res_aspects (analyze_reviews L a p reviews))))"
    unfolding r
    by (simp add: analyze_reviews_def Let_def build_competitor_recommendations_spec
        category_recommend_competitors competitors_recommend_competitors
        spec_recommendations_take)
qed

theorem recommended_products_spec_witness:
  "res_recommended_products
     (analyze_reviews demo_libs new_analyzer ''Samsung Galaxy M34'' [Plain (PyStr ''bad battery'')])
   = [\<lparr>r_name = ''Realme Mobile Series'',
       r_reason = ''Alternative mobile option with established brand reputation''
                  @ '' - known for better battery performance'',
       r_category = ''mobile''\<rparr>,
      \<lparr>r_name = ''Vivo Mobile Series'',
       r_reason = ''Known for reliability in the mobile segment''
                  @ '' - known for better battery performance'',
       r_category = ''mobile''\<rparr>,
      \<lparr>r_name = ''Oppo Mobile Series'',
       r_reason = ''Popular choice offering competitive features''
                  @ '' - known for better battery performance'',
       r_category = ''mobile''\<rparr>,
      \<lparr>r_name = ''OnePlus Mobile Series'',
       r_reason = ''Budget-friendly alternative in mobile category''
                  @ '' - known for better battery performance'',
       r_category = ''mobile''\<rparr>]"
proof -
  have ne: "[Plain (PyStr ''bad battery'')] \<noteq> []"
    by simp
  have asp: "map lower (names_with Negative (res_aspects
          (analyze_reviews demo_libs new_analyzer ''Samsung Galaxy M34''
             [Plain (PyStr ''bad battery'')])))
        = [''battery'']"
    by code_simp
  have cat: "detect_product_category ''Samsung Galaxy M34'' = ''mobile''"
    by code_simp
  have cand: "candidates ''Samsung Galaxy M34''
        = [''Realme'', ''Vivo'', ''Oppo'', ''OnePlus'', ''Apple'', ''Motorola'', ''Xiaomi'']"
    by code_simp
  have sp: "spec_recommendations ''mobile''
          [''Realme'', ''Vivo'', ''Oppo'', ''OnePlus'', ''Apple'', ''Motorola'', ''Xiaomi'']
          [''battery'']
   = [\<lparr>r_name = ''Realme Mobile Series'',
       r_reason = ''Alternative mobile option with established brand reputation''
                  @ '' - known for better battery performance'',
       r_category = ''mobile''\<rparr>,
      \<lparr>r_name = ''Vivo Mobile Series'',
       r_reason = ''Known for reliability in the mobile segment''
                  @ '' - known for better battery performance'',
       r_category = ''mobile''\<rparr>,
      \<lparr>r_name = ''Oppo Mobile Series'',
       r_reason = ''Popular choice offering competitive features''
                  @ '' - known for better battery performance'',
       r_category = ''mobile''\<rparr>,
      \<lparr>r_name = ''OnePlus Mobile Series'',
       r_reason = ''Budget-friendly alternative in mobile category''
                  @ '' - known for better battery performance'',
       r_category = ''mobile''\<rparr>]"
    by code_simp
  from recommended_products_spec
    [of "''Samsung Galaxy M34''" "''mobile''" "[]" "[]" "[Plain (PyStr ''bad battery'')]"
        demo_libs new_analyzer]
    ne
  show ?thesis unfolding asp cat cand sp by simp
qed


section \<open>The summary: the claim\<close>

lemma analyze_aspects_nonempty: "analyze_aspects L a reviews category \<noteq> []"
  by (simp add: analyze_aspects_def Let_def split: list.splits)

lemma join_nonempty: "xs \<noteq> [] \<Longrightarrow> hd xs \<noteq> [] \<Longrightarrow> join sep xs \<noteq> []"
  by (induction sep xs rule: join.induct) simp_all

lemma summary_line_nonempty: "summary_line x \<noteq> []"
  by (cases x) (simp add: summary_line_def bullet_def)

lemma sorted_desc_sorted: "sorted_wrt (\<lambda>x y. k y \<le> k x) (sorted_desc k xs)"
proof -
  have "sorted (map (\<lambda>x. - int (k x)) (sort_key (\<lambda>x. - int (k x)) xs))"
    by (rule sorted_sort_key)
  then show ?thesis by (simp add: sorted_desc_def sorted_map)
qed

lemma sorted_desc_mset: "mset (sorted_desc k xs) = mset xs"
  by (simp add: sorted_desc_def)

lemma build_summary_nonempty: "build_summary aspects \<noteq> []"
proof (cases "sorted_desc count_or_0 aspects")
  case Nil
  then show ?thesis by (simp add: build_summary_def)
next
  case (Cons x xs)
  then show ?thesis
    by (simp add: build_summary_def join_nonempty summary_line_nonempty)
qed

lemma hd_join: "xs \<noteq> [] \<Longrightarrow> hd xs \<noteq> [] \<Longrightarrow> hd (join sep xs) = hd (hd xs)"
  by (induction sep xs rule: join.induct) simp_all

lemma hd_summary_line: "hd (summary_line x) = CHR 0xE2"
  by (cases x) (simp add: summary_line_def bullet_def)

lemma build_summary_not_limited:
  assumes "aspects \<noteq> []"
  shows "build_summary aspects \<noteq> ''Limited feedback available''"
proof -
  have "mset (sorted_desc count_or_0 aspects) \<noteq> {#}"
    using assms by (simp add: sorted_desc_mset)
  then have "sorted_desc count_or_0 aspects \<noteq> []" by auto
  then obtain x xs where s: "take 5 (sorted_desc count_or_0 aspects) = x # xs"
    by (cases "sorted_desc count_or_0 aspects") auto
  have "hd (build_summary aspects) = CHR 0xE2"
    by (simp add: build_summary_def s hd_join summary_line_nonempty hd_summary_line)
  moreover have "hd ''Limited feedback available'' \<noteq> CHR 0xE2" by simp
  ultimately show ?thesis by metis
qed

text \<open>
  Claim C10, as the source has it. The result of \<^verbatim>\<open>analyze_reviews\<close> has a field
  \<^verbatim>\<open>summary\<close>, and it is never the empty string. For the empty review list it is
  \<^verbatim>\<open>No customer feedback found\<close>. For any other list the aspects of the result are not
  empty, and the summary is the bullet lines, joined by newlines, of the first five
  entries of the aspects sorted by falling count (an entry without a count counting as
  0), the sorted list being a rearrangement of the entries. The string
  \<^verbatim>\<open>Limited feedback available\<close> is what \<^verbatim>\<open>_build_summary\<close> returns for an empty aspects map;
  it is never the summary of a result, since the aspects map of a result is empty only
  for the empty review list, whose summary is \<^verbatim>\<open>No customer feedback found\<close>.
\<close>

theorem summary_rendering:
  "res_summary (analyze_reviews L a p reviews) \<noteq> []
   \<and> res_summary (analyze_reviews L a p []) = ''No customer feedback found''
   \<and> (reviews \<noteq> [] \<longrightarrow>
        res_summary (analyze_reviews L a p reviews)
          = build_summary (res_aspects (analyze_reviews L a p reviews))
        \<and> res_aspects (analyze_reviews L a p reviews) \<noteq> []
        \<and> res_summary (analyze_reviews L a p reviews)
          = join [CHR 0x0A] (map summary_line (take 5 (sorted_desc count_or_0
              (res_aspects (analyze_reviews L a p reviews))))))
   \<and> res_summary (analyze_reviews L a p reviews) \<noteq> ''Limited feedback available''
   \<and> (res_aspects (analyze_reviews L a p reviews) = [] \<longrightarrow>
        reviews = []
        \<and> res_summary (analyze_reviews L a p reviews) = ''No customer feedback found'')
   \<and> build_summary [] = ''Limited feedback available''
   \<and> (aspects \<noteq> [] \<longrightarrow>
        build_summary aspects
          = join [CHR 0x0A] (map summary_line (take 5 (sorted_desc count_or_0 aspects))))
   \<and> length (take 5 (sorted_desc count_or_0 aspects)) \<le> 5
   \<and> sorted_wrt (\<lambda>x y. count_or_0 y \<le> count_or_0 x) (sorted_desc count_or_0 aspects)
   \<and> mset (sorted_desc count_or_0 aspects) = mset aspects"
proof -
  have bs: "build_summary xs
          = join [CHR 0x0A] (map summary_line (take 5 (sorted_desc count_or_0 xs)))"
    if "xs \<noteq> []" for xs
  proof -
    have "mset (sorted_desc count_or_0 xs) \<noteq> {#}"
      using that by (simp add: sorted_desc_mset)
    then have "sorted_desc count_or_0 xs \<noteq> []" by auto
    then show ?thesis by (simp add: build_summary_def)
  qed
  have ne: "res_aspects (analyze_reviews L a p rs) \<noteq> []" if "rs \<noteq> []" for rs
    using that by (simp add: analyze_reviews_nonempty(2) analyze_aspects_nonempty)
  have sm: "res_summary (analyze_reviews L a p rs)
          = build_summary (res_aspects (analyze_reviews L a p rs))" if "rs \<noteq> []" for rs
    using that by (cases rs) (simp_all add: analyze_reviews_def Let_def)
  have nil: "res_summary (analyze_reviews L a p []) = ''No customer feedback found''"
    by (simp add: analyze_reviews_def empty_analysis_def)
  have c1: "res_summary (analyze_reviews L a p reviews) \<noteq> []"
    by (cases reviews)
       (simp_all add: analyze_reviews_def empty_analysis_def Let_def build_summary_nonempty)
  have c3: "reviews \<noteq> [] \<longrightarrow>
        res_summary (analyze_reviews L a p reviews)
          = build_summary (res_aspects (analyze_reviews L a p reviews))
        \<and> res_aspects (analyze_reviews L a p reviews) \<noteq> []
        \<and> res_summary (analyze_reviews L a p reviews)
          = join [CHR 0x0A] (map summary_line (take 5 (sorted_desc count_or_0
              (res_aspects (analyze_reviews L a p reviews)))))"
    using sm [of reviews] ne [of reviews] bs [of "res_aspects (analyze_reviews L a p reviews)"]
    by simp
  have c4: "res_summary (analyze_reviews L a p reviews) \<noteq> ''Limited feedback available''"
  proof (cases "reviews = []")
    case True
    then show ?thesis by (simp add: nil)
  next
    case False
    then show ?thesis
      using sm [OF False] build_summary_not_limited [OF ne [OF False]] by simp
  qed
  have c5: "res_aspects (analyze_reviews L a p reviews) = [] \<longrightarrow>
        reviews = []
        \<and> res_summary (analyze_reviews L a p reviews) = ''No customer feedback found''"
    using ne [of reviews] nil by auto
  have c6: "build_summary [] = ''Limited feedback available''"
    by (simp add: build_summary_def sorted_desc_def)
  have c7: "aspects \<noteq> [] \<longrightarrow>
        build_summary aspects
          = join [CHR 0x0A] (map summary_line (take 5 (sorted_desc count_or_0 aspects)))"
    using bs [of aspects] by simp
  have c8: "length (take 5 (sorted_desc count_or_0 aspects)) \<le> 5"
    by simp
  have c9: "sorted_wrt (\<lambda>x y. count_or_0 y \<le> count_or_0 x) (sorted_desc count_or_0 aspects)"
    by (rule sorted_desc_sorted)
  have c10: "mset (sorted_desc count_or_0 aspects) = mset aspects"
    by (rule sorted_desc_mset)
  from c1 nil c3 c4 c5 c6 c7 c8 c9 c10 show ?thesis
    by (intro conjI)
qed

theorem summary_rendering_witness:
  "res_summary (analyze_reviews demo_libs new_analyzer ''Unknown Gadget''
                  [Plain (PyStr ''good price''), Plain (PyStr ''bad price'')])
     = bullet @ '' Price: Neutral - Mixed opinions on price across 2 mentions''"
proof -
  have ne: "[Plain (PyStr ''good price''), Plain (PyStr ''bad price'')] \<noteq> []"
    by simp
  have e: "res_aspects (analyze_reviews demo_libs new_analyzer ''Unknown Gadget''
                  [Plain (PyStr ''good price''), Plain (PyStr ''bad price'')])
     = [(''Price'',
         \<lparr>v_sentiment = Neutral, v_reason = ''Mixed opinions on price across 2 mentions'',
          v_count = Some 2,
          v_distribution = Some \<lparr>d_positive = 1, d_negative = 1, d_neutral = 0\<rparr>\<rparr>)]"
    by code_simp
  have j: "join [CHR 0x0A] (map summary_line (take 5 (sorted_desc count_or_0
       [(''Price'',
         \<lparr>v_sentiment = Neutral, v_reason = ''Mixed opinions on price across 2 mentions'',
          v_count = Some 2,
          v_distribution = Some \<lparr>d_positive = 1, d_negative = 1, d_neutral = 0\<rparr>\<rparr>)])))
     = bullet @ '' Price: Neutral - Mixed opinions on price across 2 mentions''"
    by code_simp
  have "res_summary (analyze_reviews demo_libs new_analyzer ''Unknown Gadget''
                  [Plain (PyStr ''good price''), Plain (PyStr ''bad price'')])
          = join [CHR 0x0A] (map summary_line (take 5 (sorted_desc count_or_0
              (res_aspects (analyze_reviews demo_libs new_analyzer ''Unknown Gadget''
                  [Plain (PyStr ''good price''), Plain (PyStr ''bad price'')])))))"
    using summary_rendering
      [of demo_libs new_analyzer "''Unknown Gadget''"
          "[Plain (PyStr ''good price''), Plain (PyStr ''bad price'')]" "[]"]
      ne
    by blast
  then show ?thesis unfolding e j .
qed

text \<open>
  Claim C10 as stated, that the summary of the result is \<^verbatim>\<open>Limited feedback available\<close>
  when the aspects map is empty, fails: the result for the empty review list has an empty
  aspects map and the summary \<^verbatim>\<open>No customer feedback found\<close>.
\<close>

theorem empty_aspects_summary_counterexample:
  "res_aspects (analyze_reviews demo_libs new_analyzer ''Unknown Gadget'' []) = []
   \<and> res_summary (analyze_reviews demo_libs new_analyzer ''Unknown Gadget'' [])
     = ''No customer feedback found''"
  by code_simp


section \<open>Reviews that clean to nothing\<close>

lemma analyze_reviews_Nil: "analyze_reviews L a p [] = empty_analysis p"
  by (simp add: analyze_reviews_def)

text \<open>
  Claim C1 says that a result with a review count of 0 has no aspects, no key themes, the
  confidence \<^verbatim>\<open>None\<close> and the fixed no-reviews message as overall feedback, also when the
  review list is not empty but every entry cleans to the empty text. The source returns
  that result for the empty list (\<^verbatim>\<open>_empty_analysis\<close>, "for products with no reviews"), but
  it tests the list before cleaning it. A list whose only entry is blank passes the test,
  is cleaned to nothing and is analysed: the review count is 0, and yet the aspects hold
  \<^verbatim>\<open>General\<close>, the confidence is \<^verbatim>\<open>Low\<close> and the overall feedback speaks of mixed reviews.
\<close>

theorem blank_reviews_analysis:
  "analyze_reviews demo_libs new_analyzer ''Unknown Gadget'' [Plain (PyStr ''   '')]
   = \<lparr>res_product_name = ''Unknown Gadget'',
      res_category = ''general'',
      res_overall_feedback = ''Mixed reviews (0% positive, 0% negative).'',
      res_aspects =
        [(''General'',
          \<lparr>v_sentiment = Neutral, v_reason = ''No specific aspects identified in reviews'',
           v_count = None, v_distribution = None\<rparr>)],
      res_summary = bullet @ '' General: Neutral - No specific aspects identified in reviews'',
      res_key_themes = [],
      res_recommended_products = [],
      res_review_count = 0,
      res_analysis_confidence = ''Low''\<rparr>"
  by code_simp

end
